theory Spec2Isabelle
  imports Main
begin

section \<open>Universal APK Builder: project detection and build orchestration\<close>

text \<open>
  A shallow embedding of the project-type detector (\<^verbatim>\<open>src/detector\<close>), the environment
  check (\<^verbatim>\<open>src/core/environment.ts\<close>), the process and Gradle primitives of
  \<^verbatim>\<open>src/runners/base-pipeline.ts\<close>, the \<^verbatim>\<open>build\<close> and \<^verbatim>\<open>sign\<close> stages of the five
  pipelines and the orchestrator (\<^verbatim>\<open>src/core/orchestrator.ts\<close>).

  Conventions. In the detectors, which only read the file system, a JavaScript
  exception is a value \<open>Inl e\<close> of a sum type; a call that acts on the machine ends in an
  \<open>outcome\<close>: it returns, it throws, or it never comes back. Confidence
  scores are JavaScript numbers that only ever hold small integers, so they are \<open>int\<close>.
  Strings are \<open>char list\<close>; a character outside ASCII is written as its UTF-8 bytes.
\<close>

subsection \<open>Strings and paths\<close>

definition endsWith :: "string \<Rightarrow> string \<Rightarrow> bool" where
  "endsWith s suf = (drop (length s - length suf) s = suf)"

definition startsWith :: "string \<Rightarrow> string \<Rightarrow> bool" where
  "startsWith s pre = (take (length pre) s = pre)"

fun includesStr :: "string \<Rightarrow> string \<Rightarrow> bool" where
  "includesStr [] sub = (sub = [])"
| "includesStr (c # cs) sub = (startsWith (c # cs) sub \<or> includesStr cs sub)"

text \<open>
  \<^verbatim>\<open>path.join\<close>: the segments separated by a slash. Node also normalises the result
  (doubled separators, dot segments); the file system below is an arbitrary function of
  the path string, so nothing proved here depends on the normal form.
\<close>

fun join :: "string list \<Rightarrow> string" where
  "join [] = ''.''"
| "join [s] = s"
| "join (s # t # ts) = s @ ''/'' @ join (t # ts)"

text \<open>\<^verbatim>\<open>Array.prototype.join(sep)\<close> on an array of strings.\<close>

fun joinWith :: "string \<Rightarrow> string list \<Rightarrow> string" where
  "joinWith sep [] = []"
| "joinWith sep [s] = s"
| "joinWith sep (s # t # ts) = s @ sep @ joinWith sep (t # ts)"

text \<open>Decimal rendering of an array index, as in the own keys of an array or string.\<close>

definition digit :: "nat \<Rightarrow> char" where
  "digit n = char_of (48 + n)"

fun showNat :: "nat \<Rightarrow> string" where
  "showNat n = (if n < 10 then [digit n] else showNat (n div 10) @ [digit (n mod 10)])"

subsection \<open>JSON values and the property reads the detectors make\<close>

datatype json =
    JNull
  | JBool bool
  | JNum int
  | JStr string
  | JArr "json list"
  | JObj "(string \<times> json) list"

text \<open>
  A JavaScript value read from a parsed document is a \<open>json option\<close>, \<open>None\<close> being
  \<^verbatim>\<open>undefined\<close>. \<open>JNum\<close> keeps integers only: the code never looks at a number
  beyond its truthiness. \<open>getProp v k\<close> is \<^verbatim>\<open>v[k]\<close> for a value that is neither
  \<^verbatim>\<open>null\<close> nor \<^verbatim>\<open>undefined\<close> and for the keys the detectors use (dependency names,
  \<^verbatim>\<open>dependencies\<close>, \<^verbatim>\<open>devDependencies\<close>), none of which is an index or a
  prototype property: only an object has them, and \<^verbatim>\<open>JSON.parse\<close> keeps the last of
  duplicated keys.
\<close>

fun getProp :: "json \<Rightarrow> string \<Rightarrow> json option" where
  "getProp (JObj kvs) k = map_of (rev kvs) k"
| "getProp _ k = None"

text \<open>Optional chaining \<^verbatim>\<open>v?.[k]\<close>.\<close>

fun optIndex :: "json option \<Rightarrow> string \<Rightarrow> json option" where
  "optIndex None k = None"
| "optIndex (Some JNull) k = None"
| "optIndex (Some v) k = getProp v k"

fun truthy :: "json option \<Rightarrow> bool" where
  "truthy None = False"
| "truthy (Some JNull) = False"
| "truthy (Some (JBool b)) = b"
| "truthy (Some (JNum n)) = (n \<noteq> 0)"
| "truthy (Some (JStr s)) = (s \<noteq> [])"
| "truthy (Some (JArr _)) = True"
| "truthy (Some (JObj _)) = True"

text \<open>
  \<^verbatim>\<open>pkg.dependencies?.[k] || pkg.devDependencies?.[k]\<close> for a \<open>pkg\<close> that is not
  \<^verbatim>\<open>null\<close> (on \<^verbatim>\<open>null\<close> the read of \<^verbatim>\<open>pkg.dependencies\<close> throws; the callers test
  for it first).
\<close>

definition hasDep :: "json \<Rightarrow> string \<Rightarrow> bool" where
  "hasDep pkg k =
     (truthy (optIndex (getProp pkg ''dependencies'') k) \<or>
      truthy (optIndex (getProp pkg ''devDependencies'') k))"

text \<open>The own enumerable keys that an object spread \<^verbatim>\<open>{...v}\<close> copies.\<close>

fun spreadKeys :: "json option \<Rightarrow> string list" where
  "spreadKeys (Some (JObj kvs)) = remdups (map fst kvs)"
| "spreadKeys (Some (JStr s)) = map showNat [0..<length s]"
| "spreadKeys (Some (JArr vs)) = map showNat [0..<length vs]"
| "spreadKeys _ = []"

subsection \<open>Data model (\<^verbatim>\<open>src/core/types.ts\<close>)\<close>

datatype ProjectType = Web | Ndk | Maui | ReactNative | Unity | Unknown

record DetectionResult =
  r_type :: ProjectType
  r_confidence :: int
  r_detectedFiles :: "string list"

record ProjectInfo =
  path :: string
  ptype :: ProjectType
  confidence :: int
  detectedFiles :: "string list"
  suggestedName :: string

text \<open>
  What the detectors read of the machine: \<^verbatim>\<open>existsSync\<close> (which never throws),
  \<^verbatim>\<open>readdirSync\<close> with and without \<^verbatim>\<open>recursive\<close>, \<^verbatim>\<open>readFileSync\<close> and
  \<^verbatim>\<open>JSON.parse\<close>; \<open>None\<close> is a thrown exception.
\<close>

record runtime =
  existsSync :: "string \<Rightarrow> bool"
  readdirSync :: "string \<Rightarrow> string list option"
  readdirSyncRecursive :: "string \<Rightarrow> string list option"
  readFileSync :: "string \<Rightarrow> string option"
  JSON_parse :: "string \<Rightarrow> json option"

text \<open>
  \<^verbatim>\<open>JSON.parse(readFileSync(p, 'utf-8'))\<close> inside a \<^verbatim>\<open>try\<close>; \<open>None\<close> when either
  throws.
\<close>

definition readJson :: "runtime \<Rightarrow> string \<Rightarrow> json option" where
  "readJson rt p =
     (case readFileSync rt p of None \<Rightarrow> None | Some content \<Rightarrow> JSON_parse rt content)"

text \<open>The accumulator of a detector: \<^verbatim>\<open>confidence\<close> and \<^verbatim>\<open>detectedFiles\<close>.\<close>

type_synonym acc = "int \<times> string list"

definition finish :: "ProjectType \<Rightarrow> acc \<Rightarrow> DetectionResult option" where
  "finish t a =
     (if fst a = 0 then None
      else Some \<lparr>r_type = t, r_confidence = min (fst a) 100, r_detectedFiles = snd a\<rparr>)"

subsection \<open>\<^verbatim>\<open>detectUnityProject\<close>\<close>

definition detectUnityProject :: "runtime \<Rightarrow> string \<Rightarrow> DetectionResult option" where
  "detectUnityProject rt projectPath =
    (let projectSettingsDir = join [projectPath, ''ProjectSettings''];
         projectSettingsAsset = join [projectSettingsDir, ''ProjectSettings.asset''];
         a1 = (if existsSync rt projectSettingsDir
               then (if existsSync rt projectSettingsAsset
                     then (40 + 20, [projectSettingsAsset]) else (40, []))
               else (0, []));
         assetsDir = join [projectPath, ''Assets''];
         a2 = (if existsSync rt assetsDir
               then (case readdirSyncRecursive rt assetsDir of
                       None \<Rightarrow> (fst a1 + 25, snd a1)
                     | Some files \<Rightarrow>
                         (let unityScenes = filter (\<lambda>f. endsWith f ''.unity'') files
                          in if length unityScenes > 0
                             then (fst a1 + 25 + 15,
                                   snd a1 @ map (\<lambda>f. join [assetsDir, f]) (take 3 unityScenes))
                             else (fst a1 + 25, snd a1)))
               else a1);
         packagesManifest = join [projectPath, ''Packages'', ''manifest.json''];
         a3 = (if existsSync rt packagesManifest
               then (case readJson rt packagesManifest of
                       None \<Rightarrow> (fst a2 + 15, snd a2 @ [packagesManifest])
                     | Some manifest \<Rightarrow>
                         (if manifest \<noteq> JNull \<and>
                             truthy (optIndex (getProp manifest ''dependencies'')
                                        ''com.unity.modules.core'')
                          then (fst a2 + 15 + 10, snd a2 @ [packagesManifest])
                          else (fst a2 + 15, snd a2 @ [packagesManifest])))
               else a2);
         a4 = (case readdirSync rt projectPath of
                 None \<Rightarrow> a3
               | Some files \<Rightarrow>
                   (let metaFiles = filter (\<lambda>f. endsWith f ''.meta'') files
                    in if length metaFiles > 0 then (fst a3 + 10, snd a3) else a3));
         a5 = (if existsSync rt (join [projectPath, ''UserSettings''])
               then (fst a4 + 5, snd a4) else a4)
     in finish Unity a5)"

subsection \<open>\<^verbatim>\<open>detectWebProject\<close>\<close>

definition webFrameworks :: "string list" where
  "webFrameworks = [''vue'', ''react'', ''angular'', ''svelte'', ''solid-js'', ''preact'']"

text \<open>
  The \<^verbatim>\<open>package.json\<close> block of the Web detector. \<open>None\<close> is its early
  \<^verbatim>\<open>return null\<close>; a failed read or parse, or a document that is \<^verbatim>\<open>null\<close> (the read
  of \<^verbatim>\<open>pkg.dependencies\<close> then throws), lands in the empty \<^verbatim>\<open>catch\<close> before the
  accumulator was touched.
\<close>

definition webPackageJson :: "runtime \<Rightarrow> string \<Rightarrow> acc \<Rightarrow> acc option" where
  "webPackageJson rt packageJsonPath a =
     (if existsSync rt packageJsonPath
      then (case readJson rt packageJsonPath of
              None \<Rightarrow> Some a
            | Some pkg \<Rightarrow>
                (if pkg = JNull then Some a
                 else if hasDep pkg ''react-native'' then None
                 else if hasDep pkg ''expo'' then None
                 else Some (fst a + 20 + (if \<exists>fw \<in> set webFrameworks. hasDep pkg fw then 15 else 0),
                            snd a @ [packageJsonPath])))
      else Some a)"

definition webDirs :: "string list" where
  "webDirs = [''public'', ''static'', ''assets'', ''src'', ''dist'', ''build'']"

definition detectWebProject :: "runtime \<Rightarrow> string \<Rightarrow> DetectionResult option" where
  "detectWebProject rt projectPath =
    (let indexPaths = [join [projectPath, ''index.html''],
                       join [projectPath, ''public'', ''index.html''],
                       join [projectPath, ''src'', ''index.html''],
                       join [projectPath, ''dist'', ''index.html'']];
         a1 = (case find (existsSync rt) indexPaths of
                 None \<Rightarrow> (0, [])
               | Some indexPath \<Rightarrow> (40, [indexPath]))
     in case webPackageJson rt (join [projectPath, ''package.json'']) a1 of
          None \<Rightarrow> None
        | Some a2 \<Rightarrow>
           (let a3 = (case readdirSyncRecursive rt projectPath of
                        None \<Rightarrow> a2
                      | Some files \<Rightarrow>
                         (let htmlFiles = filter (\<lambda>f. endsWith f ''.html'') files;
                              cssFiles = filter (\<lambda>f. endsWith f ''.css'' \<or> endsWith f ''.scss''
                                                    \<or> endsWith f ''.less'') files;
                              jsFiles = filter (\<lambda>f. endsWith f ''.js'' \<or> endsWith f ''.ts''
                                                   \<or> endsWith f ''.jsx'' \<or> endsWith f ''.tsx'') files
                          in (fst a2 + (if length htmlFiles > 0 then 10 else 0)
                                     + (if length cssFiles > 0 then 5 else 0)
                                     + (if length jsFiles > 0 then 5 else 0), snd a2)));
                a4 = (fst a3 + 2 * int (length (filter (\<lambda>dir. existsSync rt (join [projectPath, dir]))
                                                  webDirs)), snd a3)
            in finish Web a4))"

subsection \<open>\<^verbatim>\<open>detectNdkProject\<close>\<close>

definition detectNdkProject :: "runtime \<Rightarrow> string \<Rightarrow> DetectionResult option" where
  "detectNdkProject rt projectPath =
    (let cmakePath = join [projectPath, ''CMakeLists.txt''];
         a1 = (if existsSync rt cmakePath then (35, [cmakePath]) else (0, []));
         androidMkPaths = [join [projectPath, ''Android.mk''],
                           join [projectPath, ''jni'', ''Android.mk'']];
         a2 = (case find (existsSync rt) androidMkPaths of
                 None \<Rightarrow> a1
               | Some mkPath \<Rightarrow> (fst a1 + 30, snd a1 @ [mkPath]));
         appMkPaths = [join [projectPath, ''Application.mk''],
                       join [projectPath, ''jni'', ''Application.mk'']];
         a3 = (case find (existsSync rt) appMkPaths of
                 None \<Rightarrow> a2
               | Some mkPath \<Rightarrow> (fst a2 + 15, snd a2 @ [mkPath]));
         a4 = (if existsSync rt (join [projectPath, ''jni'']) then (fst a3 + 15, snd a3) else a3);
         a5 = (case readdirSyncRecursive rt projectPath of
                 None \<Rightarrow> a4
               | Some files \<Rightarrow>
                  (let cFiles = filter (\<lambda>f. endsWith f ''.c'' \<or> endsWith f ''.cpp''
                                          \<or> endsWith f ''.cc'' \<or> endsWith f ''.cxx'') files;
                       headerFiles = filter (\<lambda>f. endsWith f ''.h'' \<or> endsWith f ''.hpp''
                                               \<or> endsWith f ''.hxx'') files;
                       b = (if length cFiles > 0
                            then (fst a4 + min (int (length cFiles) * 5) 25,
                                  snd a4 @ map (\<lambda>f. join [projectPath, f]) (take 5 cFiles))
                            else a4)
                   in if length headerFiles > 0
                      then (fst b + min (int (length headerFiles) * 2) 10, snd b)
                      else b))
     in finish Ndk a5)"

subsection \<open>\<^verbatim>\<open>detectMauiProject\<close>\<close>

text \<open>One round of the loop over the \<^verbatim>\<open>.csproj\<close> files.\<close>

definition mauiCsproj :: "runtime \<Rightarrow> string \<Rightarrow> acc \<Rightarrow> string \<Rightarrow> acc" where
  "mauiCsproj rt projectPath a csprojFile =
     (let csprojPath = join [projectPath, csprojFile];
          files = snd a @ [csprojPath]
      in case readFileSync rt csprojPath of
           None \<Rightarrow> (fst a, files)
         | Some content \<Rightarrow>
             (fst a
               + (if includesStr content ''Microsoft.Maui'' \<or> includesStr content ''UseMaui''
                  then 50 else 0)
               + (if includesStr content ''Xamarin.Forms'' then 40 else 0)
               + (if includesStr content ''net8.0-android'' \<or> includesStr content ''net7.0-android''
                     \<or> includesStr content ''monoandroid'' then 20 else 0),
              files))"

definition detectMauiProject :: "runtime \<Rightarrow> string \<Rightarrow> DetectionResult option" where
  "detectMauiProject rt projectPath =
    (case readdirSyncRecursive rt projectPath of
       None \<Rightarrow> None
     | Some files0 \<Rightarrow>
        (let csprojFiles = filter (\<lambda>f. endsWith f ''.csproj'') files0
         in if length csprojFiles = 0 then None
            else
             (let a1 = foldl (mauiCsproj rt projectPath) (0, []) csprojFiles;
                  mauiProgramPaths = [join [projectPath, ''MauiProgram.cs''],
                                      join [projectPath, ''MAUIProgram.cs'']];
                  a2 = (case find (existsSync rt) mauiProgramPaths of
                          None \<Rightarrow> a1
                        | Some mp \<Rightarrow> (fst a1 + 30, snd a1 @ [mp]));
                  a3 = (if existsSync rt (join [projectPath, ''Platforms'', ''Android''])
                        then (fst a2 + 15, snd a2) else a2);
                  a4 = (case readdirSyncRecursive rt projectPath of
                          None \<Rightarrow> a3
                        | Some files \<Rightarrow>
                           (let csFiles = filter (\<lambda>f. endsWith f ''.cs'') files
                            in if length csFiles > 0
                               then (fst a3 + min (int (length csFiles)) 10, snd a3)
                               else a3))
              in finish Maui a4)))"

subsection \<open>\<^verbatim>\<open>detectReactNativeProject\<close>\<close>

definition rnPackages :: "json \<Rightarrow> string list" where
  "rnPackages pkg =
     filter (\<lambda>k. startsWith k ''@react-native-community/'' \<or> startsWith k ''react-native-'')
       (remdups (spreadKeys (getProp pkg ''dependencies'') @ spreadKeys (getProp pkg ''devDependencies'')))"

text \<open>
  The \<^verbatim>\<open>try\<close> block over the parsed \<^verbatim>\<open>package.json\<close> (not \<^verbatim>\<open>null\<close>): the score
  of the dependency entries.
\<close>

definition rnPackageJson :: "json \<Rightarrow> string \<Rightarrow> acc" where
  "rnPackageJson pkg packageJsonPath =
     (let a1 = (if hasDep pkg ''react-native'' then (50, [packageJsonPath]) else (0, []));
          a2 = (if hasDep pkg ''expo'' then (fst a1 + 40, snd a1 @ [packageJsonPath]) else a1);
          n = int (length (rnPackages pkg))
      in if n > 0 then (fst a2 + min (n * 5) 20, snd a2) else a2)"

text \<open>The marker files and directories checked after the \<^verbatim>\<open>try\<close> block.\<close>

definition rnMarkers :: "runtime \<Rightarrow> string \<Rightarrow> acc \<Rightarrow> acc" where
  "rnMarkers rt projectPath a3 =
     (let androidDir = join [projectPath, ''android''];
          a4 = (if existsSync rt androidDir
                then (if existsSync rt (join [androidDir, ''build.gradle''])
                         \<or> existsSync rt (join [androidDir, ''build.gradle.kts''])
                      then (fst a3 + 15 + 10, snd a3) else (fst a3 + 15, snd a3))
                else a3);
          appJsonPath = join [projectPath, ''app.json''];
          a5 = (if existsSync rt appJsonPath then (fst a4 + 10, snd a4 @ [appJsonPath]) else a4);
          appConfigPath = join [projectPath, ''app.config.js''];
          a6 = (if existsSync rt appConfigPath
                then (fst a5 + 10, snd a5 @ [appConfigPath]) else a5);
          metroConfigPath = join [projectPath, ''metro.config.js''];
          a7 = (if existsSync rt metroConfigPath
                then (fst a6 + 5, snd a6 @ [metroConfigPath]) else a6);
          easJsonPath = join [projectPath, ''eas.json'']
      in if existsSync rt easJsonPath then (fst a7 + 10, snd a7 @ [easJsonPath]) else a7)"

definition detectReactNativeProject :: "runtime \<Rightarrow> string \<Rightarrow> DetectionResult option" where
  "detectReactNativeProject rt projectPath =
    (let packageJsonPath = join [projectPath, ''package.json'']
     in if \<not> existsSync rt packageJsonPath then None
        else case readJson rt packageJsonPath of
            None \<Rightarrow> None
          | Some pkg \<Rightarrow>
             if pkg = JNull then None
             else (let a3 = rnPackageJson pkg packageJsonPath
                   in if fst a3 = 0 then None
                      else (let a8 = rnMarkers rt projectPath a3
                            in Some \<lparr>r_type = ReactNative, r_confidence = min (fst a8) 100,
                                     r_detectedFiles = snd a8\<rparr>)))"

subsection \<open>\<^verbatim>\<open>detectProject\<close> (\<^verbatim>\<open>src/detector/index.ts\<close>)\<close>

datatype exn = Exn string

text \<open>
  A detector as \<^verbatim>\<open>detectProject\<close> sees it: an async function whose promise rejects
  (\<open>Inl\<close>), or resolves to \<^verbatim>\<open>null\<close> or to a result.
\<close>

type_synonym detector = "string \<Rightarrow> exn + DetectionResult option"

text \<open>
  The loop over the detectors: \<^verbatim>\<open>try { ... if (result && result.confidence > 0)
  results.push(result) } catch { logger.warn(...) }\<close>.
\<close>

fun runDetectors :: "detector list \<Rightarrow> string \<Rightarrow> DetectionResult list" where
  "runDetectors [] projectPath = []"
| "runDetectors (d # ds) projectPath =
     (case d projectPath of
        Inl e \<Rightarrow> runDetectors ds projectPath
      | Inr None \<Rightarrow> runDetectors ds projectPath
      | Inr (Some result) \<Rightarrow>
          (if r_confidence result > 0 then result # runDetectors ds projectPath
           else runDetectors ds projectPath))"

definition isAlnum :: "char \<Rightarrow> bool" where
  "isAlnum c = (let n = of_char c :: nat
                in (48 \<le> n \<and> n \<le> 57) \<or> (65 \<le> n \<and> n \<le> 90) \<or> (97 \<le> n \<and> n \<le> 122))"

text \<open>
  \<^verbatim>\<open>projectPath.split(/[/\\]/)\<close>, the last part or \<^verbatim>\<open>'MeuApp'\<close> when it is empty,
  without the characters that are not alphanumeric.
\<close>

definition extractProjectName :: "string \<Rightarrow> string" where
  "extractProjectName projectPath =
     (let lastPart = rev (takeWhile (\<lambda>c. c \<noteq> CHR ''/'' \<and> c \<noteq> CHR 0x5C) (rev projectPath));
          name = (if lastPart = [] then ''MeuApp'' else lastPart)
      in filter isAlnum name)"

text \<open>
  \<^verbatim>\<open>results.sort((a, b) => b.confidence - a.confidence)\<close> is a stable sort by
  descending confidence, as \<open>sort_key\<close> on the negated score is.
\<close>

definition detectProjectWith :: "detector list \<Rightarrow> string \<Rightarrow> ProjectInfo" where
  "detectProjectWith detectors projectPath =
     (case sort_key (\<lambda>r. - r_confidence r) (runDetectors detectors projectPath) of
        [] \<Rightarrow> \<lparr>path = projectPath, ptype = Unknown, confidence = 0, detectedFiles = [],
               suggestedName = extractProjectName projectPath\<rparr>
      | best # _ \<Rightarrow> \<lparr>path = projectPath, ptype = r_type best, confidence = r_confidence best,
                     detectedFiles = r_detectedFiles best,
                     suggestedName = extractProjectName projectPath\<rparr>)"

text \<open>
  The five registered detectors, in registration order. Every throwing call inside them
  sits in a \<^verbatim>\<open>try\<close>, so their promises resolve.
\<close>

definition detectors :: "runtime \<Rightarrow> detector list" where
  "detectors rt =
     [\<lambda>p. Inr (detectWebProject rt p),
      \<lambda>p. Inr (detectNdkProject rt p),
      \<lambda>p. Inr (detectMauiProject rt p),
      \<lambda>p. Inr (detectReactNativeProject rt p),
      \<lambda>p. Inr (detectUnityProject rt p)]"

definition detectProject :: "runtime \<Rightarrow> string \<Rightarrow> ProjectInfo" where
  "detectProject rt projectPath = detectProjectWith (detectors rt) projectPath"

subsection \<open>The resolver as the specification words it\<close>

text \<open>
  The evidence of a run: the results of the detectors that returned one with a positive
  confidence, in registration order. A detector that threw or returned \<^verbatim>\<open>null\<close>
  contributes nothing.
\<close>

definition evidence :: "detector list \<Rightarrow> string \<Rightarrow> DetectionResult list" where
  "evidence ds p =
     concat (map (\<lambda>d. case d p of
                         Inr (Some r) \<Rightarrow> (if 0 < r_confidence r then [r] else [])
                       | _ \<Rightarrow> []) ds)"

text \<open>The maximum-confidence result, the first registered winning a tie.\<close>

definition firstMax :: "DetectionResult list \<Rightarrow> DetectionResult option" where
  "firstMax rs =
     (if rs = [] then None
      else find (\<lambda>r. r_confidence r = Max (set (map r_confidence rs))) rs)"

definition resolveSpec :: "string \<Rightarrow> DetectionResult list \<Rightarrow> ProjectInfo" where
  "resolveSpec p rs =
     (case firstMax rs of
        None \<Rightarrow> \<lparr>path = p, ptype = Unknown, confidence = 0, detectedFiles = [],
                  suggestedName = extractProjectName p\<rparr>
      | Some best \<Rightarrow> \<lparr>path = p, ptype = r_type best, confidence = r_confidence best,
                     detectedFiles = r_detectedFiles best,
                     suggestedName = extractProjectName p\<rparr>)"


text \<open>A detector result, when there is one, has the given type and a confidence in 1..100.\<close>

definition okRes :: "ProjectType \<Rightarrow> DetectionResult option \<Rightarrow> bool" where
  "okRes t res =
     (\<forall>r. res = Some r \<longrightarrow> r_type r = t \<and> 1 \<le> r_confidence r \<and> r_confidence r \<le> 100)"


subsection \<open>Sample projects\<close>

text \<open>
  An Expo project that also has an \<^verbatim>\<open>index.html\<close> and the markers of a native
  project: \<^verbatim>\<open>CMakeLists.txt\<close>, \<^verbatim>\<open>jni/Android.mk\<close> and one C file.
\<close>

definition pkgExpoText :: string where
  "pkgExpoText = ''{\"dependencies\":{\"expo\":\"~50.0.0\"}}''"

definition pkgExpo :: json where
  "pkgExpo = JObj [(''dependencies'', JObj [(''expo'', JStr ''~50.0.0'')])]"

definition rtExpoNdk :: runtime where
  "rtExpoNdk = \<lparr>
     existsSync = (\<lambda>p. p \<in> set [''/app'', ''/app/package.json'', ''/app/index.html'',
                     ''/app/CMakeLists.txt'', ''/app/jni'', ''/app/jni/Android.mk'',
                     ''/app/jni/main.c'']),
     readdirSync = (\<lambda>p. if p = ''/app''
                     then Some [''package.json'', ''index.html'', ''CMakeLists.txt'', ''jni'']
                     else None),
     readdirSyncRecursive = (\<lambda>p. if p = ''/app''
                     then Some [''package.json'', ''index.html'', ''CMakeLists.txt'', ''jni'',
                                ''jni/Android.mk'', ''jni/main.c'']
                     else None),
     readFileSync = (\<lambda>p. if p = ''/app/package.json'' then Some pkgExpoText else None),
     JSON_parse = (\<lambda>s. if s = pkgExpoText then Some pkgExpo else None)\<rparr>"


text \<open>Three stand-in detectors: one finds a Web project, one throws, one finds a native one.\<close>

definition dWeb40 :: detector where
  "dWeb40 = (\<lambda>p. Inr (Some \<lparr>r_type = Web, r_confidence = 40, r_detectedFiles = []\<rparr>))"

definition dThrows :: detector where
  "dThrows = (\<lambda>p. Inl (Exn ''EACCES: permission denied''))"

definition dNdk35 :: detector where
  "dNdk35 = (\<lambda>p. Inr (Some \<lparr>r_type = Ndk, r_confidence = 35, r_detectedFiles = []\<rparr>))"

section \<open>The environment check (\<^verbatim>\<open>src/core/environment.ts\<close>)\<close>

record OfflineEnvironment =
  JAVA_HOME :: string
  ANDROID_HOME :: string
  ANDROID_NDK_HOME :: string
  GRADLE_USER_HOME :: string
  GRADLE_HOME :: string
  DOTNET_ROOT :: string
  NODE_PATH :: string
  NPM_CONFIG_CACHE :: string
  UNITY_PATH :: string

text \<open>The table \<^verbatim>\<open>checks\<close> of \<^verbatim>\<open>verifyEnvironment\<close>: a role name and the root it names.\<close>

definition checks :: "OfflineEnvironment \<Rightarrow> (string \<times> string) list" where
  "checks env =
     [(''JDK'', JAVA_HOME env),
      (''Android SDK'', ANDROID_HOME env),
      (''Android NDK'', ANDROID_NDK_HOME env),
      (''Gradle Cache'', GRADLE_USER_HOME env),
      (''Node.js'', NODE_PATH env),
      (''dotnet SDK'', DOTNET_ROOT env)]"

record EnvCheck =
  valid :: bool
  missing :: "string list"

definition verifyEnvironment :: "runtime \<Rightarrow> OfflineEnvironment \<Rightarrow> EnvCheck" where
  "verifyEnvironment rt env =
     (let missing = map fst (filter (\<lambda>check. \<not> existsSync rt (snd check)) (checks env))
      in \<lparr>valid = (length missing = 0), missing = missing\<rparr>)"

text \<open>All nine roots of the mapping, for comparison with the table.\<close>

definition roots :: "OfflineEnvironment \<Rightarrow> string list" where
  "roots env =
     [JAVA_HOME env, ANDROID_HOME env, ANDROID_NDK_HOME env, GRADLE_USER_HOME env,
      GRADLE_HOME env, DOTNET_ROOT env, NODE_PATH env, NPM_CONFIG_CACHE env, UNITY_PATH env]"

section \<open>Processes, effects and state\<close>

subsection \<open>Build data (\<^verbatim>\<open>src/core/types.ts\<close>)\<close>

datatype SignMode = Debug | Release

record BuildOptions =
  appName :: string
  packageName :: string
  version :: string
  versionCode :: int
  minSdk :: int
  targetSdk :: int
  compileSdk :: int
  abis :: "string list"
  signMode :: SignMode
  keystorePath :: "string option"
  keystorePassword :: "string option"
  keyAlias :: "string option"
  keyPassword :: "string option"
  iconPath :: "string option"
  permissions :: "string list"
  proguardEnabled :: bool

record BuildResult =
  success :: bool
  apkPath :: "string option"
  aabPath :: "string option"
  errors :: "string list"
  warnings :: "string list"
  buildTime :: int

record BuildProgress =
  stage :: string
  percent :: int
  message :: string

datatype PipelineKind = WebPipeline | NdkPipeline | MauiPipeline | ReactNativePipeline | UnityPipeline

text \<open>
  The fields of a pipeline object: those of \<^verbatim>\<open>BasePipeline\<close> and those its subclasses
  add.
\<close>

record pipeline_obj =
  i_buildDir :: string
  i_projectPath :: string
  i_options :: "BuildOptions option"
  i_hasAndroidDir :: bool
  i_isExpo :: bool
  i_csprojPath :: string
  i_unityProjectPath :: string

subsection \<open>What the machine does\<close>

text \<open>
  A child process as \<^verbatim>\<open>spawn\<close> shows it: the chunks it writes and then the first of its
  \<^verbatim>\<open>close\<close> event (with an exit code, or \<^verbatim>\<open>null\<close> when a signal ended it) and its
  \<^verbatim>\<open>error\<close> event, or neither of them: the code has no timeout, and a child that
  never ends emits no event.
\<close>

datatype chunk = Stdout string | Stderr string

datatype proc_end = Close "int option" | SpawnError string | NoEvent

record child =
  chunks :: "chunk list"
  ending :: proc_end

text \<open>
  How a call ends: it returns a value, it throws (a rejected promise, for an
  \<^verbatim>\<open>async\<close> function), or it never comes back (a promise that is never settled, a
  synchronous call that blocks for ever).
\<close>

datatype 'a outcome = Returned 'a | Thrown exn | Hung

text \<open>File-system and shell calls whose result is not read.\<close>

datatype effect =
    MkdirSync string
  | WriteFileSync string string
  | CpSync string string
  | CopyFileSync string string
  | ExecSync string
  | WriteBuildScript string string

text \<open>
  The machine, over a world \<open>'w\<close> that the model does not look into. \<open>view\<close> is the file
  system as the reading calls see it. \<open>spawn\<close> is \<^verbatim>\<open>child_process.spawn\<close> with
  \<^verbatim>\<open>shell: true\<close>: it takes the command line that Node hands to the shell, the working
  directory and the variables laid over \<^verbatim>\<open>process.env\<close>, and it either returns a child
  or throws on the spot (\<^verbatim>\<open>E2BIG\<close>, for one, once the environment has outgrown the
  limit of the system). \<open>prepare_eff\<close> and \<open>configure_eff\<close> are the \<^verbatim>\<open>prepare\<close> and
  \<^verbatim>\<open>configure\<close> stages of a pipeline: they write the scratch copy, set the fields of the
  pipeline object and may throw; their file-system work is not unfolded here.
\<close>

record 'w os =
  view :: "'w \<Rightarrow> runtime"
  spawn :: "string \<Rightarrow> string option \<Rightarrow> (string \<times> string) list \<Rightarrow> 'w \<Rightarrow> (exn + child) \<times> 'w"
  dns_lookup :: "string \<Rightarrow> 'w \<Rightarrow> bool \<times> 'w"
  perform :: "effect \<Rightarrow> 'w \<Rightarrow> unit outcome \<times> 'w"
  date_now :: "'w \<Rightarrow> int"
  process_env :: "string \<Rightarrow> 'w \<Rightarrow> string option"
  set_process_env :: "string \<Rightarrow> string \<Rightarrow> 'w \<Rightarrow> 'w"
  process_platform :: "'w \<Rightarrow> string"
  process_cwd :: "'w \<Rightarrow> string"
  process_resourcesPath :: "'w \<Rightarrow> string option"
  prepare_eff :: "PipelineKind \<Rightarrow> string \<Rightarrow> pipeline_obj \<Rightarrow> 'w \<Rightarrow> unit outcome \<times> pipeline_obj \<times> 'w"
  configure_eff :: "PipelineKind \<Rightarrow> BuildOptions \<Rightarrow> pipeline_obj \<Rightarrow> 'w \<Rightarrow> unit outcome \<times> pipeline_obj \<times> 'w"

text \<open>
  The state of a run: the world, the five pipeline objects and two ghost fields, the
  command lines handed to \<^verbatim>\<open>spawn\<close> so far and the progress events emitted so far (the
  listeners and the logger that receive them are taken not to throw and not to touch the
  world of the build).
\<close>

record 'w pstate =
  world :: 'w
  insts :: "PipelineKind \<Rightarrow> pipeline_obj"
  spawned :: "string list"
  progress :: "BuildProgress list"

subsection \<open>Computations that may throw or never come back\<close>

type_synonym ('s, 'a) io = "'s \<Rightarrow> 'a outcome \<times> 's"

definition io_return :: "'a \<Rightarrow> ('s, 'a) io" where
  "io_return x = (\<lambda>s. (Returned x, s))"

definition io_throw :: "exn \<Rightarrow> ('s, 'a) io" where
  "io_throw e = (\<lambda>s. (Thrown e, s))"

definition io_bind :: "('s, 'a) io \<Rightarrow> ('a \<Rightarrow> ('s, 'b) io) \<Rightarrow> ('s, 'b) io" where
  "io_bind m f =
     (\<lambda>s. case m s of
             (Returned x, s') \<Rightarrow> f x s'
           | (Thrown e, s') \<Rightarrow> (Thrown e, s')
           | (Hung, s') \<Rightarrow> (Hung, s'))"

text \<open>\<^verbatim>\<open>try { m } catch (e) { h e }\<close>.\<close>

definition io_catch :: "('s, 'a) io \<Rightarrow> (exn \<Rightarrow> ('s, 'a) io) \<Rightarrow> ('s, 'a) io" where
  "io_catch m h =
     (\<lambda>s. case m s of
             (Returned x, s') \<Rightarrow> (Returned x, s')
           | (Thrown e, s') \<Rightarrow> h e s'
           | (Hung, s') \<Rightarrow> (Hung, s'))"

definition p_exists :: "'w os \<Rightarrow> string \<Rightarrow> ('w pstate, bool) io" where
  "p_exists os p = (\<lambda>s. (Returned (existsSync (view os (world s)) p), s))"

text \<open>\<^verbatim>\<open>readdirSync(p)\<close>, which throws when \<open>p\<close> cannot be listed.\<close>

definition p_readdir :: "'w os \<Rightarrow> string \<Rightarrow> ('w pstate, string list) io" where
  "p_readdir os p =
     (\<lambda>s. case readdirSync (view os (world s)) p of
             None \<Rightarrow> (Thrown (Exn (''ENOENT: scandir '' @ p)), s)
           | Some files \<Rightarrow> (Returned files, s))"

definition p_perform :: "'w os \<Rightarrow> effect \<Rightarrow> ('w pstate, unit) io" where
  "p_perform os eff =
     (\<lambda>s. case perform os eff (world s) of (r, w) \<Rightarrow> (r, s\<lparr>world := w\<rparr>))"

definition p_inst :: "PipelineKind \<Rightarrow> ('w pstate, pipeline_obj) io" where
  "p_inst k = (\<lambda>s. (Returned (insts s k), s))"

definition p_set_inst :: "PipelineKind \<Rightarrow> pipeline_obj \<Rightarrow> ('w pstate, unit) io" where
  "p_set_inst k i = (\<lambda>s. (Returned (), s\<lparr>insts := (insts s)(k := i)\<rparr>))"

subsection \<open>More string helpers\<close>

definition showInt :: "int \<Rightarrow> string" where
  "showInt i = (if i < 0 then ''-'' @ showNat (nat (- i)) else showNat (nat i))"

text \<open>A template literal renders \<^verbatim>\<open>undefined\<close> as the text \<^verbatim>\<open>undefined\<close>.\<close>

definition template :: "string option \<Rightarrow> string" where
  "template v = (case v of None \<Rightarrow> ''undefined'' | Some s \<Rightarrow> s)"

text \<open>\<^verbatim>\<open>s.replace(pat, rep)\<close> with a string pattern: the first occurrence only.\<close>

fun replaceFirst :: "string \<Rightarrow> string \<Rightarrow> string \<Rightarrow> string" where
  "replaceFirst [] pat rep = (if pat = [] then rep else [])"
| "replaceFirst (c # cs) pat rep =
     (if startsWith (c # cs) pat then rep @ drop (length pat) (c # cs)
      else c # replaceFirst cs pat rep)"

text \<open>\<^verbatim>\<open>s.replace(/\\/g, rep)\<close>: every backslash.\<close>

definition replaceBackslashes :: "string \<Rightarrow> string \<Rightarrow> string" where
  "replaceBackslashes s rep = concat (map (\<lambda>c. if c = CHR 0x5C then rep else [c]) s)"

text \<open>\<^verbatim>\<open>path.dirname\<close> for a path written with slashes.\<close>

definition dirname :: "string \<Rightarrow> string" where
  "dirname p =
     (let d = rev (drop 1 (dropWhile (\<lambda>c. c \<noteq> CHR ''/'') (rev p)))
      in if CHR ''/'' \<notin> set p then ''.'' else if d = [] then ''/'' else d)"

text \<open>Letters of the messages that are not ASCII, in UTF-8.\<close>

definition a_tilde :: string where "a_tilde = [CHR 0xC3, CHR 0xA3]"
definition a_acute :: string where "a_acute = [CHR 0xC3, CHR 0xA1]"
definition i_acute :: string where "i_acute = [CHR 0xC3, CHR 0xAD]"
definition o_acute :: string where "o_acute = [CHR 0xC3, CHR 0xB3]"
definition c_cedil :: string where "c_cedil = [CHR 0xC3, CHR 0xA7]"

section \<open>The process and Gradle primitives (\<^verbatim>\<open>src/runners/base-pipeline.ts\<close>)\<close>

record cmd_result =
  stdout :: string
  stderr :: string
  code :: int

definition stdoutOf :: "chunk list \<Rightarrow> string" where
  "stdoutOf cs = concat (map (\<lambda>c. case c of Stdout t \<Rightarrow> t | Stderr t \<Rightarrow> []) cs)"

definition stderrOf :: "chunk list \<Rightarrow> string" where
  "stderrOf cs = concat (map (\<lambda>c. case c of Stdout t \<Rightarrow> [] | Stderr t \<Rightarrow> t) cs)"

text \<open>
  With \<^verbatim>\<open>shell: true\<close> Node hands the shell one line, the command followed by
  \<^verbatim>\<open>args.join(' ')\<close> when there are arguments. \<^verbatim>\<open>Array.prototype.join\<close> renders
  an \<^verbatim>\<open>undefined\<close> element (\<open>None\<close>) as the empty string, and the shell splits the line
  into words again.
\<close>

definition shellArg :: "string option \<Rightarrow> string" where
  "shellArg v = (case v of None \<Rightarrow> [] | Some s \<Rightarrow> s)"

definition shellLine :: "string \<Rightarrow> string option list \<Rightarrow> string" where
  "shellLine command args =
     (if args = [] then command else command @ '' '' @ joinWith '' '' (map shellArg args))"

text \<open>
  What the promise of \<^verbatim>\<open>runCommand\<close> settles to for a given child: the \<^verbatim>\<open>close\<close>
  handler resolves with \<^verbatim>\<open>code || 0\<close>, the \<^verbatim>\<open>error\<close> handler appends the message to
  \<^verbatim>\<open>stderr\<close> and resolves with code 1. A child that emits neither event leaves the
  promise pending.
\<close>

definition settle :: "child \<Rightarrow> cmd_result outcome" where
  "settle ch =
     (case ending ch of
        Close c \<Rightarrow>
          Returned \<lparr>stdout = stdoutOf (chunks ch), stderr = stderrOf (chunks ch),
                    code = (case c of None \<Rightarrow> 0 | Some n \<Rightarrow> n)\<rparr>
      | SpawnError msg \<Rightarrow>
          Returned \<lparr>stdout = stdoutOf (chunks ch), stderr = stderrOf (chunks ch) @ msg,
                    code = 1\<rparr>
      | NoEvent \<Rightarrow> Hung)"

text \<open>
  \<^verbatim>\<open>runCommand\<close>. \<^verbatim>\<open>spawn\<close> is called in the executor of the promise, outside any
  \<^verbatim>\<open>try\<close>: when it throws, the promise is rejected with what it threw.
\<close>

definition runCommand ::
  "'w os \<Rightarrow> string \<Rightarrow> string list \<Rightarrow> string \<Rightarrow> (string \<times> string) list \<Rightarrow> ('w pstate, cmd_result) io"
where
  "runCommand os command args cwd env =
     (\<lambda>s. case spawn os (shellLine command (map Some args)) (Some cwd) env (world s) of
             (r, w) \<Rightarrow>
               (case r of Inl e \<Rightarrow> Thrown e | Inr ch \<Rightarrow> settle ch,
                s\<lparr>world := w,
                  spawned := spawned s @ [shellLine command (map Some args)]\<rparr>))"

text \<open>\<^verbatim>\<open>isOnline\<close> (\<^verbatim>\<open>src/core/network.ts\<close>): whether \<^verbatim>\<open>dns.lookup('google.com')\<close> resolves.\<close>

definition isOnline :: "'w os \<Rightarrow> ('w pstate, bool) io" where
  "isOnline os =
     (\<lambda>s. case dns_lookup os ''google.com'' (world s) of
             (b, w) \<Rightarrow> (Returned b, s\<lparr>world := w\<rparr>))"

record gradle_result =
  g_success :: bool
  g_output :: string

definition gradleEnv :: "OfflineEnvironment \<Rightarrow> (string \<times> string) list" where
  "gradleEnv env =
     [(''JAVA_HOME'', JAVA_HOME env), (''ANDROID_HOME'', ANDROID_HOME env),
      (''ANDROID_SDK_ROOT'', ANDROID_HOME env), (''GRADLE_USER_HOME'', join [GRADLE_USER_HOME env])]"

definition gradleResult :: "cmd_result \<Rightarrow> gradle_result" where
  "gradleResult r = \<lparr>g_success = (code r = 0), g_output = stdout r @ stderr r\<rparr>"

text \<open>
  \<^verbatim>\<open>runGradle\<close>. Its \<^verbatim>\<open>catch\<close> block, with the retry in offline mode, is entered when
  \<^verbatim>\<open>runCommand\<close> rejects; a Gradle run that fails resolves, with its exit code.
\<close>

definition runGradle ::
  "'w os \<Rightarrow> string \<Rightarrow> string \<Rightarrow> OfflineEnvironment \<Rightarrow> ('w pstate, gradle_result) io"
where
  "runGradle os task buildDir env =
     (\<lambda>s0.
        (let gradleBin = (if process_platform os (world s0) = ''win32'' then ''gradle.bat''
                          else ''gradle'');
             gradleExec = join [GRADLE_HOME env, ''bin'', gradleBin]
         in io_bind (isOnline os) (\<lambda>online.
              (let args = [task, ''--no-daemon'', ''--stacktrace'']
                          @ (if \<not> online then [''--offline''] else [])
               in io_catch
                    (io_bind (runCommand os gradleExec args buildDir (gradleEnv env))
                       (\<lambda>result. io_return (gradleResult result)))
                    (\<lambda>error.
                       if online
                       then (let args2 = (if ''--offline'' \<notin> set args
                                          then args @ [''--offline''] else args)
                             in io_bind (runCommand os gradleExec args2 buildDir (gradleEnv env))
                                  (\<lambda>result. io_return (gradleResult result)))
                       else io_throw error))) s0))"

text \<open>\<^verbatim>\<open>copyGradleWrapper\<close>.\<close>

definition copyGradleWrapper :: "'w os \<Rightarrow> string \<Rightarrow> OfflineEnvironment \<Rightarrow> ('w pstate, unit) io" where
  "copyGradleWrapper os targetDir env =
     (let gradleDir = join [GRADLE_USER_HOME env, ''..'', ''gradle'', ''8.5''];
          wrapperSrc = join [gradleDir, ''wrapper''];
          gradlewBat = join [gradleDir, ''gradlew.bat''];
          gradlewSh = join [gradleDir, ''gradlew'']
      in io_bind (p_exists os wrapperSrc) (\<lambda>hasWrapper.
         io_bind (if hasWrapper
                  then (let targetWrapper = join [targetDir, ''gradle'', ''wrapper'']
                        in io_bind (p_perform os (MkdirSync targetWrapper)) (\<lambda>_.
                             p_perform os (CpSync wrapperSrc targetWrapper)))
                  else io_return ()) (\<lambda>_.
         io_bind (p_exists os gradlewBat) (\<lambda>hasBat.
         io_bind (if hasBat then p_perform os (CpSync gradlewBat (join [targetDir, ''gradlew.bat'']))
                  else io_return ()) (\<lambda>_.
         io_bind (p_exists os gradlewSh) (\<lambda>hasSh.
           if hasSh then p_perform os (CpSync gradlewSh (join [targetDir, ''gradlew'']))
           else io_return ()))))))"

text \<open>\<^verbatim>\<open>generateLocalProperties\<close> (\<^verbatim>\<open>src/generators/gradle.ts\<close>).\<close>

definition generateLocalProperties :: "'w os \<Rightarrow> string \<Rightarrow> string \<Rightarrow> string \<Rightarrow> ('w pstate, unit) io" where
  "generateLocalProperties os sdkPath ndkPath outputPath =
     (let sdkEscaped = replaceBackslashes sdkPath [CHR 0x5C, CHR 0x5C];
          ndkEscaped = replaceBackslashes ndkPath [CHR 0x5C, CHR 0x5C];
          content = ''sdk.dir='' @ sdkEscaped @ [CHR 0x0A] @ ''ndk.dir='' @ ndkEscaped @ [CHR 0x0A]
      in p_perform os (WriteFileSync outputPath content))"

section \<open>Signing (\<^verbatim>\<open>src/generators/signing.ts\<close> and the \<^verbatim>\<open>sign\<close> stage)\<close>

text \<open>
  \<^verbatim>\<open>KeystoreInfo\<close>. Its TypeScript fields are strings; \<^verbatim>\<open>sign\<close> fills them from
  optional fields behind a non-null assertion, which checks nothing at run time, so a
  field can hold \<^verbatim>\<open>undefined\<close> (\<open>None\<close>).
\<close>

record KeystoreInfo =
  ks_path :: "string option"
  ks_password :: "string option"
  ks_alias :: "string option"
  ks_keyPassword :: "string option"

definition typeError :: exn where
  "typeError = Exn ''TypeError''"

text \<open>\<^verbatim>\<open>getAppRoot\<close>, \<^verbatim>\<open>getBundledPath\<close> and \<^verbatim>\<open>getOfflineEnvironment\<close>.\<close>

definition getAppRoot :: "'w os \<Rightarrow> ('w pstate, string option) io" where
  "getAppRoot os =
     (\<lambda>s. if process_env os ''NODE_ENV'' (world s) = Some ''development''
           then (Returned (Some (process_cwd os (world s))), s)
           else (Returned (process_resourcesPath os (world s)), s))"

definition getBundledPath :: "'w os \<Rightarrow> ('w pstate, string) io" where
  "getBundledPath os =
     io_bind (getAppRoot os) (\<lambda>root.
       case root of None \<Rightarrow> io_throw typeError
                  | Some r \<Rightarrow> io_return (join [r, ''bundled'']))"

definition getOfflineEnvironment :: "'w os \<Rightarrow> ('w pstate, OfflineEnvironment) io" where
  "getOfflineEnvironment os =
     io_bind (getBundledPath os) (\<lambda>bundled.
       io_return \<lparr>JAVA_HOME = join [bundled, ''jdk''],
                  ANDROID_HOME = join [bundled, ''android-sdk''],
                  ANDROID_NDK_HOME = join [bundled, ''ndk'', ''r26''],
                  GRADLE_USER_HOME = join [bundled, ''gradle-cache''],
                  GRADLE_HOME = join [bundled, ''gradle'', ''8.5''],
                  DOTNET_ROOT = join [bundled, ''dotnet''],
                  NODE_PATH = join [bundled, ''node''],
                  NPM_CONFIG_CACHE = join [bundled, ''npm-cache''],
                  UNITY_PATH = join [bundled, ''unity'']\<rparr>)"

text \<open>\<^verbatim>\<open>a || b\<close> on environment variables: \<^verbatim>\<open>undefined\<close> and the empty string are falsy.\<close>

definition orElse :: "string option \<Rightarrow> string \<Rightarrow> string" where
  "orElse v d = (case v of None \<Rightarrow> d | Some s \<Rightarrow> if s = [] then d else s)"

definition keytoolCommand :: "string \<Rightarrow> OfflineEnvironment \<Rightarrow> string" where
  "keytoolCommand p env =
     [CHR 0x22] @ join [JAVA_HOME env, ''bin'', ''keytool''] @ [CHR 0x22] @ '' ''
     @ joinWith '' '' [''-genkeypair'', ''-v'', ''-keystore'', p, ''-storepass'', ''android'',
         ''-alias'', ''androiddebugkey'', ''-keypass'', ''android'', ''-keyalg'', ''RSA'',
         ''-keysize'', ''2048'', ''-validity'', ''10000'',
         ''-dname'', ''CN=Android Debug,O=Android,C=US'']"

definition getDebugKeystore :: "'w os \<Rightarrow> OfflineEnvironment \<Rightarrow> ('w pstate, KeystoreInfo) io" where
  "getDebugKeystore os env =
     (\<lambda>s0.
       (let home = orElse (process_env os ''USERPROFILE'' (world s0))
                     (orElse (process_env os ''HOME'' (world s0)) ''.'');
            debugDir = join [home, ''.android''];
            keystorePath = join [debugDir, ''debug.keystore'']
        in io_bind (p_perform os (MkdirSync debugDir)) (\<lambda>_.
           io_bind (p_exists os keystorePath) (\<lambda>ex.
           io_bind (if \<not> ex
                    then io_catch (p_perform os (ExecSync (keytoolCommand keystorePath env)))
                           (\<lambda>error. io_throw error)
                    else io_return ()) (\<lambda>_.
             io_return \<lparr>ks_path = Some keystorePath, ks_password = Some ''android'',
                        ks_alias = Some ''androiddebugkey'',
                        ks_keyPassword = Some ''android''\<rparr>))) s0))"

text \<open>
  The arguments of \<^verbatim>\<open>apksigner\<close>, as the array that \<^verbatim>\<open>signApk\<close> builds: the path
  and the alias are elements of their own, \<^verbatim>\<open>undefined\<close> when the field is, and the two
  passwords go through a template literal.
\<close>

definition signArgs :: "KeystoreInfo \<Rightarrow> string \<Rightarrow> string \<Rightarrow> string option list" where
  "signArgs keystore outputPath inputApk =
     [Some ''sign'',
      Some ''--ks'', ks_path keystore,
      Some ''--ks-pass'', Some (''pass:'' @ template (ks_password keystore)),
      Some ''--ks-key-alias'', ks_alias keystore,
      Some ''--key-pass'', Some (''pass:'' @ template (ks_keyPassword keystore)),
      Some ''--v2-signing-enabled'', Some ''true'',
      Some ''--v3-signing-enabled'', Some ''true'',
      Some ''--out'', Some outputPath,
      Some inputApk]"

definition zipalignCommand :: "OfflineEnvironment \<Rightarrow> string \<Rightarrow> string \<Rightarrow> string" where
  "zipalignCommand env apk alignedPath =
     [CHR 0x22] @ join [ANDROID_HOME env, ''build-tools'', ''34.0.0'', ''zipalign''] @ [CHR 0x22]
     @ '' -f -p 4 '' @ [CHR 0x22] @ apk @ [CHR 0x22] @ '' '' @ [CHR 0x22] @ alignedPath @ [CHR 0x22]"

text \<open>
  How the promise of \<^verbatim>\<open>signApk\<close> settles for a given \<^verbatim>\<open>apksigner\<close> child: it
  resolves to the output path when the child closes with code 0 and rejects when it
  closes otherwise or emits \<^verbatim>\<open>error\<close>.
\<close>

definition apksignerOutcome :: "child \<Rightarrow> string \<Rightarrow> string outcome" where
  "apksignerOutcome ch outputPath =
     (case ending ch of
        Close c \<Rightarrow>
          if c = Some 0 then Returned outputPath
          else Thrown (Exn (''apksigner falhou: '' @ stderrOf (chunks ch)))
      | SpawnError msg \<Rightarrow> Thrown (Exn msg)
      | NoEvent \<Rightarrow> Hung)"

definition apksignerPath :: "OfflineEnvironment \<Rightarrow> string" where
  "apksignerPath env = join [ANDROID_HOME env, ''build-tools'', ''34.0.0'', ''apksigner'']"

text \<open>
  \<^verbatim>\<open>signApk\<close>: zipalign on a best-effort basis, then \<^verbatim>\<open>apksigner\<close>, spawned with
  \<^verbatim>\<open>shell: true\<close> in the executor of the promise.
\<close>

definition signApk ::
  "'w os \<Rightarrow> string \<Rightarrow> KeystoreInfo \<Rightarrow> string \<Rightarrow> OfflineEnvironment \<Rightarrow> ('w pstate, string) io"
where
  "signApk os apk keystore outputPath env =
     (let alignedPath = replaceFirst apk ''.apk'' ''-aligned.apk''
      in io_bind (io_catch (p_perform os (ExecSync (zipalignCommand env apk alignedPath)))
                    (\<lambda>error. io_return ())) (\<lambda>_.
         io_bind (p_exists os alignedPath) (\<lambda>aligned.
           (let inputApk = (if aligned then alignedPath else apk);
                args = signArgs keystore outputPath inputApk
            in (\<lambda>s. case spawn os (shellLine (apksignerPath env) args) None [] (world s) of
                       (r, w) \<Rightarrow>
                         (case r of Inl e \<Rightarrow> Thrown e
                                  | Inr ch \<Rightarrow> apksignerOutcome ch outputPath,
                          s\<lparr>world := w,
                            spawned := spawned s @ [shellLine (apksignerPath env) args]\<rparr>))))))"

text \<open>
  The keystore of the \<^verbatim>\<open>release\<close> branch of \<^verbatim>\<open>sign\<close>: the four optional fields of the
  options as they are.
\<close>

definition releaseKeystore :: "BuildOptions \<Rightarrow> KeystoreInfo" where
  "releaseKeystore options =
     \<lparr>ks_path = keystorePath options, ks_password = keystorePassword options,
      ks_alias = keyAlias options, ks_keyPassword = keyPassword options\<rparr>"

text \<open>
  \<^verbatim>\<open>sign\<close>, the same in the five pipelines. The orchestrator passes
  \<^verbatim>\<open>result.apkPath!\<close>, so the path can be \<^verbatim>\<open>undefined\<close>; \<^verbatim>\<open>apkPath.replace\<close> then
  throws.
\<close>

definition sign :: "'w os \<Rightarrow> string option \<Rightarrow> BuildOptions \<Rightarrow> ('w pstate, string) io" where
  "sign os apk options =
     io_bind (getOfflineEnvironment os) (\<lambda>env.
     io_bind (if signMode options = Debug then getDebugKeystore os env
              else io_return (releaseKeystore options)) (\<lambda>keystore.
       case apk of
         None \<Rightarrow> io_throw typeError
       | Some a \<Rightarrow> signApk os a keystore (replaceFirst a ''.apk'' ''-signed.apk'') env))"

section \<open>The \<^verbatim>\<open>build\<close> stage of the five pipelines\<close>

definition failed :: "string list \<Rightarrow> string list \<Rightarrow> BuildResult" where
  "failed errs warns =
     \<lparr>success = False, apkPath = None, aabPath = None, errors = errs, warnings = warns,
      buildTime = 0\<rparr>"

definition succeeded :: "string \<Rightarrow> BuildResult" where
  "succeeded apk =
     \<lparr>success = True, apkPath = Some apk, aabPath = None, errors = [], warnings = [],
      buildTime = 0\<rparr>"

text \<open>\<^verbatim>\<open>this.options?.signMode === 'release'\<close>.\<close>

definition isRelease :: "pipeline_obj \<Rightarrow> bool" where
  "isRelease i = (case i_options i of None \<Rightarrow> False | Some opts \<Rightarrow> signMode opts = Release)"

text \<open>
  The Gradle build shared by the Web and the NDK pipeline, which differ in their two
  messages only.
\<close>

definition gradleBuild ::
  "'w os \<Rightarrow> PipelineKind \<Rightarrow> string \<Rightarrow> string \<Rightarrow> OfflineEnvironment \<Rightarrow> ('w pstate, BuildResult) io"
where
  "gradleBuild os k failedMsg notFoundMsg env =
     io_bind (p_inst k) (\<lambda>this.
     io_bind (generateLocalProperties os (ANDROID_HOME env) (ANDROID_NDK_HOME env)
                (join [i_buildDir this, ''local.properties''])) (\<lambda>_.
     io_bind (copyGradleWrapper os (i_buildDir this) env) (\<lambda>_.
       (let task = (if isRelease this then ''assembleRelease'' else ''assembleDebug'')
        in io_bind (runGradle os task (i_buildDir this) env) (\<lambda>result.
             if \<not> g_success result then io_return (failed [failedMsg, g_output result] [])
             else
              (let buildType = (if isRelease this then ''release'' else ''debug'');
                   apk = join [i_buildDir this, ''app'', ''build'', ''outputs'', ''apk'', buildType,
                               ''app-'' @ buildType @ ''.apk'']
               in io_bind (p_exists os apk) (\<lambda>ex.
                    if \<not> ex then io_return (failed [notFoundMsg] [])
                    else io_return (succeeded apk))))))))"

definition webBuild :: "'w os \<Rightarrow> OfflineEnvironment \<Rightarrow> ('w pstate, BuildResult) io" where
  "webBuild os env =
     gradleBuild os WebPipeline ''Gradle build falhou''
       (''APK n'' @ a_tilde @ ''o encontrado ap'' @ o_acute @ ''s build'') env"

definition ndkBuild :: "'w os \<Rightarrow> OfflineEnvironment \<Rightarrow> ('w pstate, BuildResult) io" where
  "ndkBuild os env =
     gradleBuild os NdkPipeline ''Gradle NDK build falhou''
       (''APK n'' @ a_tilde @ ''o encontrado ap'' @ o_acute @ ''s build NDK'') env"

definition npmEnv :: "'w os \<Rightarrow> OfflineEnvironment \<Rightarrow> 'w \<Rightarrow> (string \<times> string) list" where
  "npmEnv os env w =
     [(''PATH'', NODE_PATH env @ '';'' @ template (process_env os ''PATH'' w)),
      (''npm_config_cache'', NPM_CONFIG_CACHE env)]"

definition rnBuild :: "'w os \<Rightarrow> OfflineEnvironment \<Rightarrow> ('w pstate, BuildResult) io" where
  "rnBuild os env =
     io_bind (p_inst ReactNativePipeline) (\<lambda>this.
       (let androidDir = join [i_buildDir this, ''android''];
            rest =
              io_bind (p_exists os androidDir) (\<lambda>ex.
                if \<not> ex
                then io_return (failed
                       [''Diret'' @ o_acute @ ''rio android/ n'' @ a_tilde @ ''o encontrado. ''
                        @ ''Execute \"npx react-native eject\" ou \"npx expo prebuild\" primeiro.''] [])
                else
                 io_bind (\<lambda>s. runCommand os (join [NODE_PATH env, ''npm''])
                                 [''install'', ''--offline'', ''--prefer-offline'']
                                 (i_buildDir this) (npmEnv os env (world s)) s) (\<lambda>_.
                 io_bind (generateLocalProperties os (ANDROID_HOME env) (ANDROID_NDK_HOME env)
                            (join [androidDir, ''local.properties''])) (\<lambda>_.
                   (let task = (if isRelease this then ''assembleRelease'' else ''assembleDebug'')
                    in io_bind (runGradle os task androidDir env) (\<lambda>result.
                         if \<not> g_success result
                         then io_return (failed [''Gradle build React Native falhou'',
                                                 g_output result] [])
                         else
                          (let buildType = (if isRelease this then ''release'' else ''debug'');
                               apk = join [androidDir, ''app'', ''build'', ''outputs'', ''apk'',
                                           buildType, ''app-'' @ buildType @ ''.apk'']
                           in io_bind (p_exists os apk) (\<lambda>found.
                                if \<not> found
                                then io_return (failed
                                       [''APK React Native n'' @ a_tilde @ ''o encontrado ap''
                                        @ o_acute @ ''s build''] [])
                                else io_return (succeeded apk))))))))
        in if \<not> i_hasAndroidDir this \<and> i_isExpo this
           then io_bind (\<lambda>s. runCommand os (join [NODE_PATH env, ''npx''])
                               [''expo'', ''prebuild'', ''--platform'', ''android'', ''--clean'']
                               (i_buildDir this) (npmEnv os env (world s)) s) (\<lambda>prebuildResult.
                  if code prebuildResult \<noteq> 0
                  then io_return (failed [''Expo prebuild falhou'', stderr prebuildResult] [])
                  else io_bind (p_set_inst ReactNativePipeline (this\<lparr>i_hasAndroidDir := True\<rparr>))
                         (\<lambda>_. rest))
           else rest))"

text \<open>\<^verbatim>\<open>findGeneratedApk\<close> of the MAUI pipeline; \<^verbatim>\<open>readdirSync\<close> may throw.\<close>

fun findGeneratedApk :: "'w os \<Rightarrow> string list \<Rightarrow> ('w pstate, string option) io" where
  "findGeneratedApk os [] = io_return None"
| "findGeneratedApk os (dir # dirs) =
     io_bind (p_exists os dir) (\<lambda>ex.
       if \<not> ex then findGeneratedApk os dirs
       else io_bind (p_readdir os dir) (\<lambda>files.
              case find (\<lambda>f. endsWith f ''.apk'' \<and> \<not> includesStr f ''Signed'') files of
                Some apk \<Rightarrow> if apk \<noteq> [] then io_return (Some (join [dir, apk]))
                            else findGeneratedApk os dirs
              | None \<Rightarrow> findGeneratedApk os dirs))"

definition mauiBuild :: "'w os \<Rightarrow> OfflineEnvironment \<Rightarrow> ('w pstate, BuildResult) io" where
  "mauiBuild os env =
     io_bind (p_inst MauiPipeline) (\<lambda>this.
       (let dotnetPath = join [DOTNET_ROOT env, ''dotnet''];
            configuration = (if isRelease this then ''Release'' else ''Debug'');
            dotnetEnv = [(''DOTNET_ROOT'', DOTNET_ROOT env)];
            buildArgs =
              [''build'', i_csprojPath this, ''-c'', configuration, ''-f'', ''net8.0-android'',
               ''-p:AndroidPackageFormat=apk'',
               ''-p:ApplicationId='' @ orElse (map_option packageName (i_options this)) ''com.maui.app'',
               ''-p:ApplicationDisplayVersion='' @ orElse (map_option version (i_options this)) ''1.0.0'',
               ''-p:ApplicationVersion='' @
                  showInt (case i_options this of None \<Rightarrow> 1
                           | Some opts \<Rightarrow> if versionCode opts = 0 then 1 else versionCode opts)]
        in io_bind (runCommand os dotnetPath
                      [''restore'', ''--source'', join [DOTNET_ROOT env, ''nuget-cache'']]
                      (i_buildDir this) dotnetEnv) (\<lambda>restoreResult.
           io_bind (runCommand os dotnetPath buildArgs (i_buildDir this) dotnetEnv) (\<lambda>buildResult.
             if code buildResult \<noteq> 0
             then io_return (failed [''dotnet build falhou'', stderr buildResult] [])
             else io_bind (findGeneratedApk os
                             [join [i_buildDir this, ''bin'', configuration, ''net8.0-android''],
                              join [i_buildDir this, ''bin'', configuration, ''net7.0-android'']])
                    (\<lambda>found. case found of
                        None \<Rightarrow> io_return (failed [''APK MAUI n'' @ a_tilde @ ''o encontrado ap''
                                                     @ o_acute @ ''s build''] [])
                      | Some apk \<Rightarrow> io_return (succeeded apk))))))"

definition unityArgs :: "pipeline_obj \<Rightarrow> string list" where
  "unityArgs this =
     [''-quit'', ''-batchmode'', ''-nographics'',
      ''-projectPath'', i_unityProjectPath this,
      ''-executeMethod'', ''AndroidBuilder.Build'',
      ''-logFile'', join [i_buildDir this, ''unity-build.log'']]"

text \<open>
  The Unity build. \<open>WriteBuildScript file dir\<close> is the \<^verbatim>\<open>writeFileSync\<close> of the C# build
  script, a fixed text with the export directory \<open>dir\<close> in it.
\<close>

definition unityBuild :: "'w os \<Rightarrow> OfflineEnvironment \<Rightarrow> ('w pstate, BuildResult) io" where
  "unityBuild os env =
     io_bind (p_inst UnityPipeline) (\<lambda>this.
       (let unityPath = join [UNITY_PATH env, ''Unity.exe'']
        in io_bind (p_exists os unityPath) (\<lambda>hasUnity.
             if \<not> hasUnity
             then io_return (failed
                    [''Unity Editor n'' @ a_tilde @ ''o encontrado em '' @ unityPath]
                    [''Certifique-se de que o Unity est'' @ a_acute
                     @ '' instalado em bundled/unity''])
             else
              (let exportDir = join [i_buildDir this, ''android-export''];
                   editorDir = join [i_unityProjectPath this, ''Assets'', ''Editor'']
               in io_bind (p_perform os (MkdirSync exportDir)) (\<lambda>_.
                  io_bind (p_perform os (MkdirSync editorDir)) (\<lambda>_.
                  io_bind (p_perform os (WriteBuildScript (join [editorDir, ''AndroidBuilder.cs''])
                                           (replaceBackslashes exportDir ''/''))) (\<lambda>_.
                  io_bind (runCommand os unityPath (unityArgs this) (i_unityProjectPath this)
                             [(''ANDROID_HOME'', ANDROID_HOME env),
                              (''ANDROID_NDK_HOME'', ANDROID_NDK_HOME env),
                              (''JAVA_HOME'', JAVA_HOME env)]) (\<lambda>result.
                    if code result \<noteq> 0
                    then io_return (failed [''Unity build falhou'', stderr result] [])
                    else
                     (let apk = join [exportDir, ''game.apk'']
                      in io_bind (p_exists os apk) (\<lambda>ex.
                           if \<not> ex
                           then io_bind (p_readdir os exportDir) (\<lambda>files.
                                  case find (\<lambda>f. endsWith f ''.apk'') files of
                                    None \<Rightarrow> io_return (failed
                                              [''APK Unity n'' @ a_tilde @ ''o encontrado ap''
                                               @ o_acute @ ''s build''] [])
                                  | Some other \<Rightarrow> io_return (succeeded (join [exportDir, other])))
                           else io_return (succeeded apk)))))))))))"

definition pipeline_build ::
  "'w os \<Rightarrow> PipelineKind \<Rightarrow> OfflineEnvironment \<Rightarrow> ('w pstate, BuildResult) io"
where
  "pipeline_build os k env =
     (case k of
        WebPipeline \<Rightarrow> webBuild os env
      | NdkPipeline \<Rightarrow> ndkBuild os env
      | MauiPipeline \<Rightarrow> mauiBuild os env
      | ReactNativePipeline \<Rightarrow> rnBuild os env
      | UnityPipeline \<Rightarrow> unityBuild os env)"

text \<open>The \<^verbatim>\<open>prepare\<close> and \<^verbatim>\<open>configure\<close> stages, run on the pipeline object \<open>k\<close>.\<close>

definition pipeline_prepare :: "'w os \<Rightarrow> PipelineKind \<Rightarrow> string \<Rightarrow> ('w pstate, unit) io" where
  "pipeline_prepare os k projectPath =
     (\<lambda>s. case prepare_eff os k projectPath (insts s k) (world s) of
             (r, i, w) \<Rightarrow> (r, s\<lparr>world := w, insts := (insts s)(k := i)\<rparr>))"

definition pipeline_configure :: "'w os \<Rightarrow> PipelineKind \<Rightarrow> BuildOptions \<Rightarrow> ('w pstate, unit) io" where
  "pipeline_configure os k options =
     (\<lambda>s. case configure_eff os k options (insts s k) (world s) of
             (r, i, w) \<Rightarrow> (r, s\<lparr>world := w, insts := (insts s)(k := i)\<rparr>))"

section \<open>The orchestrator (\<^verbatim>\<open>src/core/orchestrator.ts\<close>)\<close>

text \<open>
  Ghost events of one \<^verbatim>\<open>build\<close> call: which stage methods of the pipeline were called,
  what its \<^verbatim>\<open>build\<close> stage returned, and that output placement began. They live in a
  component of the state that the stages cannot reach.
\<close>

datatype stage_event =
    PrepareCalled
  | ConfigureCalled
  | BuildCalled
  | BuildReturned BuildResult
  | SignCalled
  | OutputPlacement

type_synonym 'w ostate = "'w pstate \<times> stage_event list"

definition io_stage :: "('w pstate, 'a) io \<Rightarrow> ('w ostate, 'a) io" where
  "io_stage m = (\<lambda>(s, lg). case m s of (r, s') \<Rightarrow> (r, (s', lg)))"

definition io_log :: "stage_event \<Rightarrow> ('w ostate, unit) io" where
  "io_log ev = (\<lambda>(s, lg). (Returned (), (s, lg @ [ev])))"

definition dateNow :: "'w os \<Rightarrow> ('w pstate, int) io" where
  "dateNow os = (\<lambda>s. (Returned (date_now os (world s)), s))"

definition emitProgress :: "string \<Rightarrow> int \<Rightarrow> string \<Rightarrow> ('w pstate, unit) io" where
  "emitProgress st pc msg =
     (\<lambda>s. (Returned (),
           s\<lparr>progress := progress s @ [\<lparr>stage = st, percent = pc, message = msg\<rparr>]\<rparr>))"

text \<open>\<^verbatim>\<open>applyEnvironment\<close>: assignments to \<^verbatim>\<open>process.env\<close>.\<close>

definition applyEnvironment :: "'w os \<Rightarrow> OfflineEnvironment \<Rightarrow> ('w pstate, unit) io" where
  "applyEnvironment os env =
     (\<lambda>s. (let w = world s;
                paths = [join [JAVA_HOME env, ''bin''],
                         join [ANDROID_HOME env, ''platform-tools''],
                         join [ANDROID_HOME env, ''cmdline-tools'', ''latest'', ''bin''],
                         join [ANDROID_HOME env, ''build-tools'', ''34.0.0''],
                         join [NODE_PATH env],
                         join [DOTNET_ROOT env]];
                separator = (if process_platform os w = ''win32'' then '';'' else '':'');
                newPath = joinWith separator paths @ separator @ orElse (process_env os ''PATH'' w) [];
                w' = foldl (\<lambda>v (k, x). set_process_env os k x v) w
                       [(''JAVA_HOME'', JAVA_HOME env),
                        (''ANDROID_HOME'', ANDROID_HOME env),
                        (''ANDROID_SDK_ROOT'', ANDROID_HOME env),
                        (''ANDROID_NDK_HOME'', ANDROID_NDK_HOME env),
                        (''GRADLE_USER_HOME'', GRADLE_USER_HOME env),
                        (''DOTNET_ROOT'', DOTNET_ROOT env),
                        (''npm_config_cache'', NPM_CONFIG_CACHE env),
                        (''PATH'', newPath)]
            in (Returned (), s\<lparr>world := w'\<rparr>)))"

definition typeName :: "ProjectType \<Rightarrow> string" where
  "typeName t =
     (case t of Web \<Rightarrow> ''web'' | Ndk \<Rightarrow> ''ndk'' | Maui \<Rightarrow> ''maui''
      | ReactNative \<Rightarrow> ''reactnative'' | Unity \<Rightarrow> ''unity'' | Unknown \<Rightarrow> ''unknown'')"

text \<open>The pipelines registered by the constructor.\<close>

definition pipelines :: "ProjectType \<Rightarrow> PipelineKind option" where
  "pipelines t =
     (case t of Web \<Rightarrow> Some WebPipeline | Ndk \<Rightarrow> Some NdkPipeline | Maui \<Rightarrow> Some MauiPipeline
      | ReactNative \<Rightarrow> Some ReactNativePipeline | Unity \<Rightarrow> Some UnityPipeline
      | Unknown \<Rightarrow> None)"

text \<open>The method \<^verbatim>\<open>BuildOrchestrator.detectProject\<close>.\<close>

definition orchDetectProject :: "'w os \<Rightarrow> string \<Rightarrow> ('w pstate, ProjectInfo) io" where
  "orchDetectProject os projectPath =
     io_bind (emitProgress (''Detec'' @ c_cedil @ a_tilde @ ''o'') 0
                ''Analisando estrutura do projeto...'') (\<lambda>_.
     io_bind (\<lambda>s. (Returned (detectProject (view os (world s)) projectPath), s)) (\<lambda>info.
     io_bind (emitProgress (''Detec'' @ c_cedil @ a_tilde @ ''o'') 10
                (''Tipo detectado: '' @ typeName (ptype info) @ '' (''
                 @ showInt (confidence info) @ ''% confian'' @ c_cedil @ ''a)'')) (\<lambda>_.
       io_return info)))"

definition exnMessage :: "exn \<Rightarrow> string" where
  "exnMessage e = (case e of Exn m \<Rightarrow> m)"

text \<open>The result of an early \<^verbatim>\<open>return\<close> of \<^verbatim>\<open>build\<close> with one error.\<close>

definition failure :: "'w os \<Rightarrow> int \<Rightarrow> string \<Rightarrow> ('w ostate, BuildResult) io" where
  "failure os startTime err =
     io_bind (io_stage (dateNow os)) (\<lambda>t.
       io_return \<lparr>success = False, apkPath = None, aabPath = None, errors = [err],
                  warnings = [], buildTime = t - startTime\<rparr>)"

text \<open>
  The \<^verbatim>\<open>try\<close> block of \<^verbatim>\<open>BuildOrchestrator.build\<close>; \<open>env\<close> is the field
  \<^verbatim>\<open>this.env\<close> and \<open>startTime\<close> the clock reading taken before the block.
\<close>

definition buildTry ::
  "'w os \<Rightarrow> OfflineEnvironment \<Rightarrow> string \<Rightarrow> BuildOptions \<Rightarrow> int \<Rightarrow> ('w ostate, BuildResult) io"
where
  "buildTry os env projectPath options startTime =
      (io_bind (io_stage (emitProgress (''Verifica'' @ c_cedil @ a_tilde @ ''o'') 5
                            ''Verificando SDKs embutidos...'')) (\<lambda>_.
       io_bind (io_stage (\<lambda>s. (Returned (verifyEnvironment (view os (world s)) env), s))) (\<lambda>envCheck.
       if \<not> valid envCheck
       then failure os startTime (''SDKs faltando: '' @ joinWith '', '' (missing envCheck))
       else
       io_bind (io_stage (applyEnvironment os env)) (\<lambda>_.
       io_bind (io_stage (orchDetectProject os projectPath)) (\<lambda>projectInfo.
       if ptype projectInfo = Unknown
       then failure os startTime (''Tipo de projeto n'' @ a_tilde @ ''o reconhecido'')
       else
        case pipelines (ptype projectInfo) of
          None \<Rightarrow> failure os startTime
                    (''Pipeline n'' @ a_tilde @ ''o dispon'' @ i_acute @ ''vel para tipo: ''
                     @ typeName (ptype projectInfo))
        | Some k \<Rightarrow>
       io_bind (io_stage (emitProgress (''Prepara'' @ c_cedil @ a_tilde @ ''o'') 20
                            ''Preparando arquivos do projeto...'')) (\<lambda>_.
       io_bind (io_log PrepareCalled) (\<lambda>_.
       io_bind (io_stage (pipeline_prepare os k projectPath)) (\<lambda>_.
       io_bind (io_stage (emitProgress (''Configura'' @ c_cedil @ a_tilde @ ''o'') 30
                            (''Gerando configura'' @ c_cedil @ [CHR 0xC3, CHR 0xB5]
                             @ ''es (Manifest, Gradle, '' @ i_acute @ ''cones)...''))) (\<lambda>_.
       io_bind (io_log ConfigureCalled) (\<lambda>_.
       io_bind (io_stage (pipeline_configure os k options)) (\<lambda>_.
       io_bind (io_stage (emitProgress (''Compila'' @ c_cedil @ a_tilde @ ''o'') 50
                            ''Compilando projeto...'')) (\<lambda>_.
       io_bind (io_log BuildCalled) (\<lambda>_.
       io_bind (io_stage (pipeline_build os k env)) (\<lambda>result.
       io_bind (io_log (BuildReturned result)) (\<lambda>_.
       if \<not> success result then io_return result
       else
       io_bind (io_stage (emitProgress ''Assinatura'' 90 ''Assinando APK...'')) (\<lambda>_.
       io_bind (io_log SignCalled) (\<lambda>_.
       io_bind (io_stage (sign os (apkPath result) options)) (\<lambda>signedApk.
       io_bind (io_log OutputPlacement) (\<lambda>_.
         (let outputDir = join [dirname signedApk, appName options];
              finalApkPath = join [outputDir, appName options @ ''.apk'']
          in io_bind (io_stage (p_exists os outputDir)) (\<lambda>ex.
             io_bind (if \<not> ex then io_stage (p_perform os (MkdirSync outputDir))
                      else io_return ()) (\<lambda>_.
             io_bind (io_stage (p_perform os (CopyFileSync signedApk finalApkPath))) (\<lambda>_.
             io_bind (io_stage (emitProgress (''Conclu'' @ i_acute @ ''do'') 100
                                  ''Build finalizado com sucesso!'')) (\<lambda>_.
             io_bind (io_stage (dateNow os)) (\<lambda>t.
               io_return (result\<lparr>apkPath := Some finalApkPath,
                                   buildTime := t - startTime\<rparr>)))))))
       )))))))))))))))))))"

text \<open>
  \<^verbatim>\<open>BuildOrchestrator.build\<close>: the \<^verbatim>\<open>try\<close> block, and the \<^verbatim>\<open>catch\<close> that turns
  an exception into a result with the single error \<^verbatim>\<open>error.message\<close>.
\<close>

definition build ::
  "'w os \<Rightarrow> OfflineEnvironment \<Rightarrow> string \<Rightarrow> BuildOptions \<Rightarrow> ('w ostate, BuildResult) io"
where
  "build os env projectPath options =
     io_bind (io_stage (dateNow os)) (\<lambda>startTime.
       io_catch (buildTry os env projectPath options startTime)
         (\<lambda>error. failure os startTime (exnMessage error)))"

section \<open>Predicates used in the statements\<close>

text \<open>Every value that \<open>m\<close> returns without throwing satisfies \<open>P\<close>.\<close>

definition returns :: "('s, 'a) io \<Rightarrow> ('a \<Rightarrow> bool) \<Rightarrow> bool" where
  "returns m P = (\<forall>s x s'. m s = (Returned x, s') \<longrightarrow> P x)"

text \<open>A list of error strings that says something: it has a first string, with text in it.\<close>

definition descriptive :: "string list \<Rightarrow> bool" where
  "descriptive errs = (case errs of [] \<Rightarrow> False | m # ms \<Rightarrow> m \<noteq> [])"

text \<open>
  A well-formed result of a \<^verbatim>\<open>build\<close> stage: a success names its artifact, a failure
  names none and carries at least one error string, the first with text in it.
\<close>

definition goodResult :: "BuildResult \<Rightarrow> bool" where
  "goodResult r =
     (if success r then apkPath r \<noteq> None else apkPath r = None \<and> descriptive (errors r))"

text \<open>
  Short-circuit on a failed \<^verbatim>\<open>build\<close> stage: the orchestrator returns the stage's result
  as it is, it has no \<^verbatim>\<open>apkPath\<close>, and neither \<^verbatim>\<open>sign\<close> nor output placement ran.
\<close>

definition shortCircuit :: "BuildResult \<Rightarrow> stage_event list \<Rightarrow> bool" where
  "shortCircuit res lg =
     (\<forall>r. BuildReturned r \<in> set lg \<and> \<not> success r \<longrightarrow>
          res = r \<and> apkPath res = None \<and> SignCalled \<notin> set lg \<and> OutputPlacement \<notin> set lg)"

definition noFailedBuild :: "stage_event list \<Rightarrow> bool" where
  "noFailedBuild lg = (\<forall>r. BuildReturned r \<in> set lg \<longrightarrow> success r)"

definition post_ok :: "BuildResult \<Rightarrow> stage_event list \<Rightarrow> bool" where
  "post_ok res lg = ((\<not> success res \<longrightarrow> descriptive (errors res)) \<and> shortCircuit res lg)"

text \<open>
  \<open>safeAt lg m\<close>: started with the events \<open>lg\<close>, the rest \<open>m\<close> of the \<^verbatim>\<open>try\<close> block
  of \<^verbatim>\<open>build\<close> either returns a result that is fine for the events then recorded, or
  throws or hangs at a point where no failed \<^verbatim>\<open>build\<close> stage is on record.
\<close>

definition safeOut :: "BuildResult outcome \<times> 'w ostate \<Rightarrow> bool" where
  "safeOut r =
     (case r of
        (Returned res, st) \<Rightarrow> post_ok res (snd st)
      | (Thrown e, st) \<Rightarrow> noFailedBuild (snd st)
      | (Hung, st) \<Rightarrow> noFailedBuild (snd st))"

definition safeAt :: "stage_event list \<Rightarrow> ('w ostate, BuildResult) io \<Rightarrow> bool" where
  "safeAt lg m = (\<forall>s. safeOut (m (s, lg)))"

text \<open>\<open>m\<close> leaves the recorded events alone.\<close>

definition nolog :: "('w ostate, 'a) io \<Rightarrow> bool" where
  "nolog m = (\<forall>s lg. snd (snd (m (s, lg))) = lg)"

text \<open>
  What the statements ask of the machine. \<open>finishes\<close>: every call into it comes back and
  every child it spawns ends. \<open>describes\<close>: whatever it throws, and the \<^verbatim>\<open>error\<close> event
  of a child, carries a message with text in it, as the errors of Node do, and those that
  the \<^verbatim>\<open>prepare\<close> and \<^verbatim>\<open>configure\<close> stages raise themselves.
\<close>

definition finishes :: "'w os \<Rightarrow> bool" where
  "finishes os =
     ((\<forall>line cwd env w ch w'. spawn os line cwd env w = (Inr ch, w') \<longrightarrow> ending ch \<noteq> NoEvent)
    \<and> (\<forall>eff w. fst (perform os eff w) \<noteq> Hung)
    \<and> (\<forall>k p i w. fst (prepare_eff os k p i w) \<noteq> Hung)
    \<and> (\<forall>k opts i w. fst (configure_eff os k opts i w) \<noteq> Hung))"

definition describes :: "'w os \<Rightarrow> bool" where
  "describes os =
     ((\<forall>line cwd env w e w'. spawn os line cwd env w = (Inl e, w') \<longrightarrow> exnMessage e \<noteq> [])
    \<and> (\<forall>line cwd env w ch w' msg.
          spawn os line cwd env w = (Inr ch, w') \<and> ending ch = SpawnError msg \<longrightarrow> msg \<noteq> [])
    \<and> (\<forall>eff w e. fst (perform os eff w) = Thrown e \<longrightarrow> exnMessage e \<noteq> [])
    \<and> (\<forall>k p i w e. fst (prepare_eff os k p i w) = Thrown e \<longrightarrow> exnMessage e \<noteq> [])
    \<and> (\<forall>k opts i w e. fst (configure_eff os k opts i w) = Thrown e \<longrightarrow> exnMessage e \<noteq> []))"

text \<open>
  \<open>tame F D m\<close>: if \<open>F\<close> holds then \<open>m\<close> does not hang, and if \<open>D\<close> holds then what
  \<open>m\<close> throws has a message with text in it.
\<close>

definition tame :: "bool \<Rightarrow> bool \<Rightarrow> ('s, 'a) io \<Rightarrow> bool" where
  "tame F D m =
     (\<forall>s. (F \<longrightarrow> fst (m s) \<noteq> Hung)
        \<and> (D \<longrightarrow> (\<forall>e. fst (m s) = Thrown e \<longrightarrow> exnMessage e \<noteq> [])))"

section \<open>Sample machines\<close>

definition env0 :: OfflineEnvironment where
  "env0 = \<lparr>JAVA_HOME = ''/b/jdk'', ANDROID_HOME = ''/b/android-sdk'',
           ANDROID_NDK_HOME = ''/b/ndk/r26'', GRADLE_USER_HOME = ''/b/gradle-cache'',
           GRADLE_HOME = ''/b/gradle/8.5'', DOTNET_ROOT = ''/b/dotnet'', NODE_PATH = ''/b/node'',
           NPM_CONFIG_CACHE = ''/b/npm-cache'', UNITY_PATH = ''/b/unity''\<rparr>"

text \<open>A file system with every toolchain root but the Gradle installation.\<close>

definition rtNoGradle :: runtime where
  "rtNoGradle = \<lparr>
     existsSync = (\<lambda>p. p \<in> set [''/b/jdk'', ''/b/android-sdk'', ''/b/ndk/r26'',
                     ''/b/gradle-cache'', ''/b/dotnet'', ''/b/node'', ''/b/npm-cache'',
                     ''/b/unity'']),
     readdirSync = (\<lambda>p. None),
     readdirSyncRecursive = (\<lambda>p. None),
     readFileSync = (\<lambda>p. None),
     JSON_parse = (\<lambda>s. None)\<rparr>"

text \<open>A file system without the JDK and without the .NET SDK.\<close>

definition rtNoJdk :: runtime where
  "rtNoJdk = \<lparr>
     existsSync = (\<lambda>p. p \<in> set [''/b/android-sdk'', ''/b/ndk/r26'', ''/b/gradle-cache'',
                     ''/b/gradle/8.5'', ''/b/node'', ''/b/npm-cache'', ''/b/unity'']),
     readdirSync = (\<lambda>p. None),
     readdirSyncRecursive = (\<lambda>p. None),
     readFileSync = (\<lambda>p. None),
     JSON_parse = (\<lambda>s. None)\<rparr>"

text \<open>
  A machine whose world is a file system that never changes: every child process closes
  with the given code after writing the given text to its standard error, the DNS lookup
  answers as given, no effect throws, and \<^verbatim>\<open>prepare\<close> and \<^verbatim>\<open>configure\<close> leave the
  pipeline object alone.
\<close>

definition machine :: "bool \<Rightarrow> int option \<Rightarrow> string \<Rightarrow> runtime os" where
  "machine online exitCode err = \<lparr>
     view = (\<lambda>w. w),
     spawn = (\<lambda>line cwd env w. (Inr \<lparr>chunks = [Stderr err], ending = Close exitCode\<rparr>, w)),
     dns_lookup = (\<lambda>host w. (online, w)),
     perform = (\<lambda>eff w. (Returned (), w)),
     date_now = (\<lambda>w. 0),
     process_env = (\<lambda>name w. if name = ''HOME'' then Some ''/home/dev'' else None),
     set_process_env = (\<lambda>name v w. w),
     process_platform = (\<lambda>w. ''linux''),
     process_cwd = (\<lambda>w. ''/''),
     process_resourcesPath = (\<lambda>w. Some ''/opt/app/resources''),
     prepare_eff = (\<lambda>k p i w. (Returned (), i, w)),
     configure_eff = (\<lambda>k opts i w. (Returned (), i, w))\<rparr>"

text \<open>The toolchain roots that \<^verbatim>\<open>getOfflineEnvironment\<close> computes on that machine.\<close>

definition envM :: OfflineEnvironment where
  "envM = \<lparr>JAVA_HOME = ''/opt/app/resources/bundled/jdk'',
           ANDROID_HOME = ''/opt/app/resources/bundled/android-sdk'',
           ANDROID_NDK_HOME = ''/opt/app/resources/bundled/ndk/r26'',
           GRADLE_USER_HOME = ''/opt/app/resources/bundled/gradle-cache'',
           GRADLE_HOME = ''/opt/app/resources/bundled/gradle/8.5'',
           DOTNET_ROOT = ''/opt/app/resources/bundled/dotnet'',
           NODE_PATH = ''/opt/app/resources/bundled/node'',
           NPM_CONFIG_CACHE = ''/opt/app/resources/bundled/npm-cache'',
           UNITY_PATH = ''/opt/app/resources/bundled/unity''\<rparr>"

definition obj0 :: pipeline_obj where
  "obj0 = \<lparr>i_buildDir = ''/tmp/apk-builder/web/1'', i_projectPath = ''/app'', i_options = None,
           i_hasAndroidDir = False, i_isExpo = False, i_csprojPath = [],
           i_unityProjectPath = []\<rparr>"

definition state0 :: "runtime \<Rightarrow> runtime pstate" where
  "state0 rt = \<lparr>world = rt, insts = (\<lambda>k. obj0), spawned = [], progress = []\<rparr>"

definition options0 :: BuildOptions where
  "options0 = \<lparr>appName = ''Demo'', packageName = ''com.example.demo'', version = ''1.0.0'',
     versionCode = 1, minSdk = 21, targetSdk = 34, compileSdk = 34,
     abis = [''arm64-v8a'', ''armeabi-v7a''], signMode = Debug,
     keystorePath = None, keystorePassword = None, keyAlias = None, keyPassword = None,
     iconPath = None, permissions = [''android.permission.INTERNET''],
     proguardEnabled = False\<rparr>"

text \<open>A release build whose caller left out the keystore password.\<close>

definition optionsNoPassword :: BuildOptions where
  "optionsNoPassword = options0\<lparr>signMode := Release, keystorePath := Some ''/keys/release.jks'',
     keyAlias := Some ''upload'', keyPassword := Some ''s3cret''\<rparr>"

text \<open>A Web project: an \<^verbatim>\<open>index.html\<close> in a folder, on a machine with every toolchain.\<close>

definition rtWeb :: runtime where
  "rtWeb = \<lparr>
     existsSync = (\<lambda>p. p \<in> set [''/app'', ''/app/index.html'',
                     ''/b/jdk'', ''/b/android-sdk'', ''/b/ndk/r26'', ''/b/gradle-cache'',
                     ''/b/gradle/8.5'', ''/b/dotnet'', ''/b/node'', ''/b/npm-cache'']),
     readdirSync = (\<lambda>p. if p = ''/app'' then Some [''index.html''] else None),
     readdirSyncRecursive = (\<lambda>p. if p = ''/app'' then Some [''index.html''] else None),
     readFileSync = (\<lambda>p. None),
     JSON_parse = (\<lambda>s. None)\<rparr>"



text \<open>
  The same machine once \<^verbatim>\<open>process.env\<close> has outgrown the limit of the system:
  \<^verbatim>\<open>spawn\<close> throws on the spot.
\<close>

definition machineSpawnThrows :: "runtime os" where
  "machineSpawnThrows =
     (machine True (Some 0) [])\<lparr>spawn := (\<lambda>line cwd env w. (Inl (Exn ''spawn E2BIG''), w))\<rparr>"

text \<open>The same machine with children that never end.\<close>

definition machineHangs :: "runtime os" where
  "machineHangs =
     (machine True (Some 0) [])
       \<lparr>spawn := (\<lambda>line cwd env w. (Inr \<lparr>chunks = [], ending = NoEvent\<rparr>, w))\<rparr>"

text \<open>
  The Web project on a machine where the Gradle installation (\<^verbatim>\<open>GRADLE_HOME\<close>) is not
  there.
\<close>

definition rtWebNoGradle :: runtime where
  "rtWebNoGradle = \<lparr>
     existsSync = (\<lambda>p. p \<in> set [''/app'', ''/app/index.html'',
                     ''/b/jdk'', ''/b/android-sdk'', ''/b/ndk/r26'', ''/b/gradle-cache'',
                     ''/b/dotnet'', ''/b/node'', ''/b/npm-cache'']),
     readdirSync = (\<lambda>p. if p = ''/app'' then Some [''index.html''] else None),
     readdirSyncRecursive = (\<lambda>p. if p = ''/app'' then Some [''index.html''] else None),
     readFileSync = (\<lambda>p. None),
     JSON_parse = (\<lambda>s. None)\<rparr>"

text \<open>A release build whose caller left out the keystore path and the key alias.\<close>

definition optionsNoPath :: BuildOptions where
  "optionsNoPath = options0\<lparr>signMode := Release, keystorePassword := Some ''st0re'',
     keyPassword := Some ''s3cret''\<rparr>"

section \<open>What a call of \<^verbatim>\<open>build\<close> may end in\<close>

text \<open>
  With the events \<open>lg\<close> on record: a result that obeys the short-circuit and, when it
  is a failure, has an error (one with text in it if \<open>D\<close> holds); never an exception;
  and a hang only if \<open>F\<close> fails, with no failed \<^verbatim>\<open>build\<close> stage on record.
\<close>

definition outcome_ok :: "bool \<Rightarrow> bool \<Rightarrow> BuildResult outcome \<Rightarrow> stage_event list \<Rightarrow> bool" where
  "outcome_ok F D out lg =
     (case out of
        Returned res \<Rightarrow>
          shortCircuit res lg
          \<and> (\<not> success res \<longrightarrow> errors res \<noteq> [] \<and> (D \<longrightarrow> descriptive (errors res)))
      | Thrown e \<Rightarrow> False
      | Hung \<Rightarrow> \<not> F \<and> noFailedBuild lg)"

section \<open>Properties of the detector\<close>


lemma ok_finish: "0 \<le> fst a \<Longrightarrow> okRes t (finish t a)"
  by (auto simp: finish_def okRes_def)
lemma ok_None: "okRes t None" by (simp add: okRes_def)
lemma ok_let_acc: "0 \<le> fst (e::acc) \<Longrightarrow> (\<And>x. 0 \<le> fst x \<Longrightarrow> okRes t (f x)) \<Longrightarrow> okRes t (Let e f)"
  by simp
lemma ok_let: "(\<And>x. okRes t (f x)) \<Longrightarrow> okRes t (Let e f)"
  by simp
lemma ok_if: "okRes t a \<Longrightarrow> okRes t b \<Longrightarrow> okRes t (if c then a else b)"
  by simp
lemma ok_opt: "okRes t a \<Longrightarrow> (\<And>x. okRes t (f x)) \<Longrightarrow> okRes t (case v of None \<Rightarrow> a | Some x \<Rightarrow> f x)"
  by (simp split: option.splits)

lemma nn_let_acc: "0 \<le> fst (e::acc) \<Longrightarrow> (\<And>x. 0 \<le> fst x \<Longrightarrow> (0::int) \<le> fst (f x)) \<Longrightarrow> 0 \<le> fst (Let e f)"
  by simp
lemma nn_let: "(\<And>x. (0::int) \<le> fst (f x)) \<Longrightarrow> 0 \<le> fst (Let e f)"
  by simp
lemma nn_if: "(c \<Longrightarrow> (0::int) \<le> fst a) \<Longrightarrow> (\<not> c \<Longrightarrow> 0 \<le> fst b) \<Longrightarrow> 0 \<le> fst (if c then a else b)"
  by simp
lemma nn_opt: "(0::int) \<le> fst a \<Longrightarrow> (\<And>x. 0 \<le> fst (f x)) \<Longrightarrow> 0 \<le> fst (case v of None \<Rightarrow> a | Some x \<Rightarrow> f x)"
  by (simp split: option.splits)

lemmas acc_rules = ok_finish ok_None ok_let_acc ok_let ok_if ok_opt nn_let_acc nn_let nn_if nn_opt

lemma unity_ok: "okRes Unity (detectUnityProject rt p)"
  unfolding detectUnityProject_def
  by (intro acc_rules) simp_all

lemma ndk_ok: "okRes Ndk (detectNdkProject rt p)"
  unfolding detectNdkProject_def
  by (intro acc_rules) simp_all

lemma webPackageJson_nonneg: "webPackageJson rt pj a = Some b \<Longrightarrow> 0 \<le> fst a \<Longrightarrow> 0 \<le> fst b"
  by (auto simp: webPackageJson_def split: if_splits option.splits)

lemma ok_webpkg: "0 \<le> fst a \<Longrightarrow> (\<And>b. 0 \<le> fst b \<Longrightarrow> okRes t (f b)) \<Longrightarrow>
   okRes t (case webPackageJson rt pj a of None \<Rightarrow> None | Some b \<Rightarrow> f b)"
  by (auto simp: ok_None dest: webPackageJson_nonneg split: option.splits)

lemma web_ok: "okRes Web (detectWebProject rt p)"
  unfolding detectWebProject_def
  by (intro ok_webpkg acc_rules) simp_all

lemma mauiCsproj_nonneg: "0 \<le> fst a \<Longrightarrow> 0 \<le> fst (mauiCsproj rt p a f)"
  by (simp add: mauiCsproj_def Let_def split: option.splits)

lemma foldl_mauiCsproj_nonneg: "0 \<le> fst a \<Longrightarrow> 0 \<le> fst (foldl (mauiCsproj rt p) a fs)"
  by (induction fs arbitrary: a) (simp_all add: mauiCsproj_nonneg)

lemma maui_ok: "okRes Maui (detectMauiProject rt p)"
  unfolding detectMauiProject_def
  by (intro acc_rules) (simp_all add: foldl_mauiCsproj_nonneg)

lemma mono_let_acc: "c \<le> fst (e::acc) \<Longrightarrow> (\<And>x. c \<le> fst x \<Longrightarrow> (c::int) \<le> fst (f x)) \<Longrightarrow> c \<le> fst (Let e f)"
  by simp
lemma mono_let: "(\<And>x. (c::int) \<le> fst (f x)) \<Longrightarrow> c \<le> fst (Let e f)"
  by simp
lemma mono_if: "(c::int) \<le> fst a \<Longrightarrow> c \<le> fst b \<Longrightarrow> c \<le> fst (if b' then a else b)"
  by simp

lemma rnMarkers_mono: "c \<le> fst a \<Longrightarrow> c \<le> fst (rnMarkers rt p a)"
  unfolding rnMarkers_def
  by (intro mono_let_acc mono_let mono_if) simp_all

lemma rnPackageJson_nonneg: "0 \<le> fst (rnPackageJson pkg pj)"
  unfolding rnPackageJson_def
  by (intro nn_let_acc nn_let nn_if) simp_all


lemma rn_ok: "okRes ReactNative (detectReactNativeProject rt p)"
proof -
  have "1 \<le> fst (rnMarkers rt p (rnPackageJson pkg pj))" if "fst (rnPackageJson pkg pj) \<noteq> 0" for pkg pj
    using that rnPackageJson_nonneg[of pkg pj] by (intro rnMarkers_mono) simp
  then show ?thesis
    by (auto simp: detectReactNativeProject_def okRes_def Let_def split: option.splits)
qed




lemma runDetectors_evidence: "runDetectors ds p = evidence ds p"
  by (induction ds) (auto simp: evidence_def split: sum.splits option.splits)

lemma runDetectors_append: "runDetectors (ds1 @ ds2) p = runDetectors ds1 p @ runDetectors ds2 p"
  by (simp add: runDetectors_evidence evidence_def)

lemma hd_insort_key:
  "hd (insort_key f x ys) = (if ys = [] \<or> f x \<le> f (hd ys) then x else hd ys)"
  by (cases ys) auto

lemma sort_key_Nil_iff: "sort_key f xs = [] \<longleftrightarrow> xs = []"
  by (metis length_0_conv length_sort)

lemma insort_sort_key: "sort_key f (x # xs) = insort_key f x (sort_key f xs)"
  by (simp add: sort_key_def)

lemma hd_sort_key_first_min:
  fixes f :: "'a \<Rightarrow> int"
  assumes "xs \<noteq> []"
  shows "hd (sort_key f xs) \<in> set xs \<and> (\<forall>x \<in> set xs. f (hd (sort_key f xs)) \<le> f x)
         \<and> find (\<lambda>x. f x = f (hd (sort_key f xs))) xs = Some (hd (sort_key f xs))"
  using assms
proof (induction xs)
  case Nil
  then show ?case by simp
next
  case (Cons x xs)
  show ?case
  proof (cases "xs = []")
    case True
    then show ?thesis by simp
  next
    case False
    note IH = Cons.IH[OF False]
    have ne: "sort_key f xs \<noteq> []" using False by (simp add: sort_key_Nil_iff)
    show ?thesis
    proof (cases "f x \<le> f (hd (sort_key f xs))")
      case True
      then have h: "hd (sort_key f (x # xs)) = x"
        by (simp add: insort_sort_key hd_insort_key)
      show ?thesis unfolding h using True IH by auto
    next
      case F: False
      then have h: "hd (sort_key f (x # xs)) = hd (sort_key f xs)"
        using ne by (simp add: insort_sort_key hd_insort_key)
      show ?thesis unfolding h using F IH by auto
    qed
  qed
qed

lemma firstMax_sort:
  assumes "rs \<noteq> []"
  shows "firstMax rs = Some (hd (sort_key (\<lambda>r. - r_confidence r) rs))"
proof -
  let ?h = "hd (sort_key (\<lambda>r. - r_confidence r) rs)"
  from hd_sort_key_first_min[OF assms, of "\<lambda>r. - r_confidence r"]
  have mem: "?h \<in> set rs" and le: "\<forall>x \<in> set rs. r_confidence x \<le> r_confidence ?h"
    and fnd: "find (\<lambda>x. r_confidence x = r_confidence ?h) rs = Some ?h"
    by auto
  have "Max (set (map r_confidence rs)) = r_confidence ?h"
    using mem le by (intro Max_eqI) auto
  then show ?thesis using assms fnd by (simp add: firstMax_def)
qed

lemma detectProjectWith_spec: "detectProjectWith ds p = resolveSpec p (evidence ds p)"
proof (cases "evidence ds p = []")
  case True
  then show ?thesis
    by (simp add: detectProjectWith_def resolveSpec_def firstMax_def runDetectors_evidence)
next
  case False
  then obtain b bs where s: "sort_key (\<lambda>r. - r_confidence r) (evidence ds p) = b # bs"
    by (metis sort_key_Nil_iff list.exhaust)
  then have "firstMax (evidence ds p) = Some b"
    using firstMax_sort[OF False] by simp
  then show ?thesis
    by (simp add: detectProjectWith_def resolveSpec_def runDetectors_evidence s)
qed

text \<open>
  Claim C1. \<^verbatim>\<open>detectProject\<close> never throws and isolates faults. The resolver is a total
  function to \<open>ProjectInfo\<close>: the only exceptions in it are those of the detectors,
  and the loop catches them. A detector \<open>d\<close> that throws on \<open>p\<close> is treated as having
  produced no evidence: the outcome is the one of the run without \<open>d\<close>. For any list of
  detectors, and for the five registered ones, the outcome is computed from the results
  that are not \<^verbatim>\<open>null\<close> (and have a positive confidence) alone: it is the first result
  of maximal confidence, or the \<^verbatim>\<open>unknown\<close> record when there is none.
\<close>

theorem detectProject_fault_isolation:
  "(d p = Inl e \<longrightarrow> detectProjectWith (ds1 @ d # ds2) p = detectProjectWith (ds1 @ ds2) p)
   \<and> detectProjectWith ds p = resolveSpec p (evidence ds p)
   \<and> detectProject rt p = resolveSpec p (evidence (detectors rt) p)"
  by (simp add: detectProject_def detectProjectWith_spec evidence_def)

lemma detectProjectWith_sample:
  "detectProjectWith [dNdk35, dWeb40] ''/srv/app-1'' =
     \<lparr>path = ''/srv/app-1'', ptype = Web, confidence = 40, detectedFiles = [],
      suggestedName = ''app1''\<rparr>"
  by (simp add: detectProjectWith_def dNdk35_def dWeb40_def extractProjectName_def isAlnum_def)

theorem detectProject_fault_isolation_witness:
  "dThrows ''/srv/app-1'' = Inl (Exn ''EACCES: permission denied'')
   \<and> detectProjectWith ([dNdk35] @ dThrows # [dWeb40]) ''/srv/app-1'' =
       \<lparr>path = ''/srv/app-1'', ptype = Web, confidence = 40, detectedFiles = [],
        suggestedName = ''app1''\<rparr>"
proof -
  have h: "dThrows ''/srv/app-1'' = Inl (Exn ''EACCES: permission denied'')"
    by (simp add: dThrows_def)
  from detectProject_fault_isolation
    [of dThrows "''/srv/app-1''" "Exn ''EACCES: permission denied''" "[dNdk35]" "[dWeb40]"]
  have "detectProjectWith ([dNdk35] @ dThrows # [dWeb40]) ''/srv/app-1'' =
        detectProjectWith ([dNdk35] @ [dWeb40]) ''/srv/app-1''"
    using h by blast
  then show ?thesis using h detectProjectWith_sample by simp
qed

lemma detectors_results:
  assumes "d \<in> set (detectors rt)" "d p = Inr (Some r)"
  shows "r_type r \<noteq> Unknown \<and> 0 < r_confidence r \<and> r_confidence r \<le> 100"
  using assms web_ok[of rt p] ndk_ok[of rt p] maui_ok[of rt p] rn_ok[of rt p] unity_ok[of rt p]
  by (auto simp: detectors_def okRes_def)

lemma evidence_detectors:
  assumes "r \<in> set (evidence (detectors rt) p)"
  shows "r_type r \<noteq> Unknown \<and> 0 < r_confidence r \<and> r_confidence r \<le> 100"
proof -
  from assms obtain d where "d \<in> set (detectors rt)" "d p = Inr (Some r)"
    by (auto simp: evidence_def split: sum.splits option.splits if_splits)
  then show ?thesis by (rule detectors_results)
qed

lemma firstMax_mem: "firstMax rs = Some b \<Longrightarrow> b \<in> set rs"
  by (auto simp: firstMax_def find_Some_iff split: if_splits)

lemma rtExpoNdk_detectors:
  "detectWebProject rtExpoNdk ''/app'' = None
   \<and> detectNdkProject rtExpoNdk ''/app'' = Some \<lparr>r_type = Ndk, r_confidence = 85,
        r_detectedFiles = [''/app/CMakeLists.txt'', ''/app/jni/Android.mk'', ''/app/jni/main.c'']\<rparr>
   \<and> detectMauiProject rtExpoNdk ''/app'' = None
   \<and> detectReactNativeProject rtExpoNdk ''/app'' = Some \<lparr>r_type = ReactNative,
        r_confidence = 40, r_detectedFiles = [''/app/package.json'']\<rparr>
   \<and> detectUnityProject rtExpoNdk ''/app'' = None"
  by (simp add: detectWebProject_def webPackageJson_def detectNdkProject_def
      detectMauiProject_def detectUnityProject_def
      detectReactNativeProject_def rnPackageJson_def rnMarkers_def rnPackages_def
      rtExpoNdk_def readJson_def pkgExpo_def hasDep_def finish_def endsWith_def startsWith_def
      Let_def)

text \<open>
  Claim C3. Whatever the file system holds, the \<open>ProjectInfo\<close> that detection produces
  has an integer confidence between 0 and 100, and the confidence is 0 exactly when the
  type is \<^verbatim>\<open>unknown\<close>; every result of a registered detector has a confidence in
  1..100, however many signals were added up.
\<close>

theorem detectProject_confidence_range:
  "0 \<le> confidence (detectProject rt p) \<and> confidence (detectProject rt p) \<le> 100
   \<and> (confidence (detectProject rt p) = 0 \<longleftrightarrow> ptype (detectProject rt p) = Unknown)
   \<and> (\<forall>d \<in> set (detectors rt). \<forall>r. d p = Inr (Some r) \<longrightarrow>
         0 < r_confidence r \<and> r_confidence r \<le> 100)"
proof (cases "firstMax (evidence (detectors rt) p)")
  case None
  then show ?thesis
    using detectors_results[of _ rt p]
    by (auto simp: detectProject_def detectProjectWith_spec resolveSpec_def)
next
  case (Some b)
  then have "r_type b \<noteq> Unknown \<and> 0 < r_confidence b \<and> r_confidence b \<le> 100"
    using evidence_detectors firstMax_mem by blast
  then show ?thesis
    using Some detectors_results[of _ rt p]
    by (auto simp: detectProject_def detectProjectWith_spec resolveSpec_def)
qed

theorem detectProject_confidence_range_witness:
  "confidence (detectProject rtExpoNdk ''/app'') = 85
   \<and> 0 \<le> confidence (detectProject rtExpoNdk ''/app'')
   \<and> confidence (detectProject rtExpoNdk ''/app'') \<le> 100
   \<and> ptype (detectProject rtExpoNdk ''/app'') \<noteq> Unknown
   \<and> (\<lambda>p. Inr (detectNdkProject rtExpoNdk p)) \<in> set (detectors rtExpoNdk)
   \<and> (\<exists>r. detectNdkProject rtExpoNdk ''/app'' = Some r
          \<and> 0 < r_confidence r \<and> r_confidence r \<le> 100)"
proof -
  have c: "confidence (detectProject rtExpoNdk ''/app'') = 85"
    by (simp add: detectProject_def detectProjectWith_def detectors_def rtExpoNdk_detectors)
  have m: "(\<lambda>p. Inr (detectNdkProject rtExpoNdk p)) \<in> set (detectors rtExpoNdk)"
    by (simp add: detectors_def)
  obtain r where r: "detectNdkProject rtExpoNdk ''/app'' = Some r"
    using rtExpoNdk_detectors by blast
  note t = detectProject_confidence_range[of rtExpoNdk "''/app''"]
  from t have q: "\<forall>d \<in> set (detectors rtExpoNdk). \<forall>r. d ''/app'' = Inr (Some r) \<longrightarrow>
         0 < r_confidence r \<and> r_confidence r \<le> 100"
    by blast
  from bspec[OF q m] r have "0 < r_confidence r \<and> r_confidence r \<le> 100" by simp
  then show ?thesis using c m r t by simp
qed


























section \<open>Properties of the build\<close>

subsection \<open>What the stages return\<close>

lemma returns_return: "P x \<Longrightarrow> returns (io_return x) P"
  by (simp add: returns_def io_return_def)
lemma returns_throw: "returns (io_throw e) P"
  by (simp add: returns_def io_throw_def)
lemma returns_bind: "(\<And>x. returns (f x) P) \<Longrightarrow> returns (io_bind m f) P"
  by (auto simp: returns_def io_bind_def split: prod.splits outcome.splits)
lemma returns_catch: "returns m P \<Longrightarrow> (\<And>e. returns (h e) P) \<Longrightarrow> returns (io_catch m h) P"
  by (auto simp: returns_def io_catch_def split: prod.splits outcome.splits)
lemma returns_if: "returns a P \<Longrightarrow> returns b P \<Longrightarrow> returns (if c then a else b) P"
  by simp
lemma returns_let: "returns (f e) P \<Longrightarrow> returns (Let e f) P"
  by simp
lemma returns_option: "returns a P \<Longrightarrow> (\<And>x. returns (f x) P) \<Longrightarrow> returns (case v of None \<Rightarrow> a | Some x \<Rightarrow> f x) P"
  by (simp split: option.splits)

lemmas returns_rules = returns_return returns_throw returns_bind returns_catch returns_if
  returns_let returns_option

lemma good_failed: "m \<noteq> [] \<Longrightarrow> goodResult (failed (m # errs) warns)"
  by (simp add: goodResult_def failed_def descriptive_def)
lemma good_succeeded: "goodResult (succeeded apk)"
  by (simp add: goodResult_def succeeded_def)

lemma gradleBuild_good: "m1 \<noteq> [] \<Longrightarrow> m2 \<noteq> [] \<Longrightarrow> returns (gradleBuild os k m1 m2 env) goodResult"
  unfolding gradleBuild_def
  by (intro returns_rules good_failed good_succeeded) simp_all

lemma rnBuild_good: "returns (rnBuild os env) goodResult"
  unfolding rnBuild_def
  by (intro returns_rules good_failed good_succeeded) simp_all

lemma mauiBuild_good: "returns (mauiBuild os env) goodResult"
  unfolding mauiBuild_def
  by (intro returns_rules good_failed good_succeeded) simp_all

lemma unityBuild_good: "returns (unityBuild os env) goodResult"
  unfolding unityBuild_def
  by (intro returns_rules good_failed good_succeeded) simp_all

lemma pipeline_build_good: "returns (pipeline_build os k env) goodResult"
  by (cases k) (simp_all add: pipeline_build_def webBuild_def ndkBuild_def gradleBuild_good
      rnBuild_good mauiBuild_good unityBuild_good)

subsection \<open>The short-circuit, along the \<^verbatim>\<open>try\<close> block\<close>

lemma nolog_stage: "nolog (io_stage m)"
  by (simp add: nolog_def io_stage_def split: prod.splits)
lemma nolog_return: "nolog (io_return x)"
  by (simp add: nolog_def io_return_def)
lemma nolog_if: "nolog a \<Longrightarrow> nolog b \<Longrightarrow> nolog (if c then a else b)"
  by simp

lemma safe_bind_nolog:
  assumes "nolog m" "noFailedBuild lg" "\<And>x. safeAt lg (f x)"
  shows "safeAt lg (io_bind m f)"
  unfolding safeAt_def
proof
  fix s
  obtain r s' lg' where m: "m (s, lg) = (r, (s', lg'))" by (metis surj_pair)
  have "snd (snd (m (s, lg))) = lg" using assms(1) by (simp add: nolog_def)
  then have lg': "lg' = lg" using m by simp
  show "safeOut (io_bind m f (s, lg))"
  proof (cases r)
    case (Returned x)
    then have "io_bind m f (s, lg) = f x (s', lg)" using m lg' by (simp add: io_bind_def)
    then show ?thesis using assms(3)[of x] by (simp add: safeAt_def)
  next
    case (Thrown e)
    then show ?thesis using m lg' assms(2) by (simp add: io_bind_def safeOut_def)
  next
    case Hung
    then show ?thesis using m lg' assms(2) by (simp add: io_bind_def safeOut_def)
  qed
qed

lemma safe_bind_build:
  assumes "noFailedBuild lg" "\<And>r. goodResult r \<Longrightarrow> safeAt lg (f r)"
  shows "safeAt lg (io_bind (io_stage (pipeline_build os k env)) f)"
  unfolding safeAt_def
proof
  fix s
  let ?m = "io_bind (io_stage (pipeline_build os k env)) f"
  obtain r s' where m: "pipeline_build os k env s = (r, s')" by (metis surj_pair)
  show "safeOut (?m (s, lg))"
  proof (cases r)
    case (Returned x)
    then have "goodResult x" using m pipeline_build_good[of os k env] by (auto simp: returns_def)
    moreover have "?m (s, lg) = f x (s', lg)"
      using m Returned by (simp add: io_bind_def io_stage_def)
    ultimately show ?thesis using assms(2)[of x] by (simp add: safeAt_def)
  next
    case (Thrown e)
    then show ?thesis using m assms(1) by (simp add: io_bind_def io_stage_def safeOut_def)
  next
    case Hung
    then show ?thesis using m assms(1) by (simp add: io_bind_def io_stage_def safeOut_def)
  qed
qed

lemma safe_bind_log: "safeAt (lg @ [ev]) (f ()) \<Longrightarrow> safeAt lg (io_bind (io_log ev) f)"
  by (simp add: safeAt_def io_bind_def io_log_def)

lemma safe_return: "post_ok res lg \<Longrightarrow> safeAt lg (io_return res)"
  by (simp add: safeAt_def safeOut_def io_return_def)

lemma safe_failure: "noFailedBuild lg \<Longrightarrow> err \<noteq> [] \<Longrightarrow> safeAt lg (failure os t err)"
  by (auto simp: safeAt_def safeOut_def failure_def io_bind_def io_stage_def dateNow_def
      io_return_def post_ok_def shortCircuit_def noFailedBuild_def descriptive_def)

lemma safe_if: "(c \<Longrightarrow> safeAt lg a) \<Longrightarrow> (\<not> c \<Longrightarrow> safeAt lg b) \<Longrightarrow> safeAt lg (if c then a else b)"
  by simp
lemma safe_let: "safeAt lg (f e) \<Longrightarrow> safeAt lg (Let e f)"
  by simp
lemma safe_option: "safeAt lg a \<Longrightarrow> (\<And>x. safeAt lg (f x)) \<Longrightarrow> safeAt lg (case v of None \<Rightarrow> a | Some x \<Rightarrow> f x)"
  by (simp split: option.splits)

lemmas safe_rules = safe_bind_build safe_bind_log safe_bind_nolog safe_failure safe_if safe_let
  safe_option safe_return nolog_stage nolog_return nolog_if

lemma buildTry_safe: "safeAt [] (buildTry os env p opts t)"
  unfolding buildTry_def
  apply (intro safe_rules)
  apply (simp_all add: noFailedBuild_def post_ok_def shortCircuit_def goodResult_def)
  done

subsection \<open>Hanging and the messages of exceptions\<close>

lemma tame_return: "tame F D (io_return x)"
  by (simp add: tame_def io_return_def)
lemma tame_throw: "(D \<Longrightarrow> exnMessage e \<noteq> []) \<Longrightarrow> tame F D (io_throw e)"
  by (auto simp: tame_def io_throw_def)
lemma tameD:
  "tame F D m \<Longrightarrow> m s = (r, s') \<Longrightarrow>
     (F \<longrightarrow> r \<noteq> Hung) \<and> (D \<longrightarrow> (\<forall>e. r = Thrown e \<longrightarrow> exnMessage e \<noteq> []))"
  unfolding tame_def by (metis fst_conv)

lemma tame_bind:
  assumes "tame F D m" "\<And>x. tame F D (f x)"
  shows "tame F D (io_bind m f)"
  unfolding tame_def
proof (intro allI)
  fix s
  obtain r s' where m: "m s = (r, s')" by (metis surj_pair)
  note a = tameD[OF assms(1) m]
  show "(F \<longrightarrow> fst (io_bind m f s) \<noteq> Hung)
      \<and> (D \<longrightarrow> (\<forall>e. fst (io_bind m f s) = Thrown e \<longrightarrow> exnMessage e \<noteq> []))"
  proof (cases r)
    case (Returned x)
    then have "io_bind m f s = f x s'" using m by (simp add: io_bind_def)
    then show ?thesis using assms(2)[of x] by (simp add: tame_def)
  next
    case (Thrown e)
    then show ?thesis using m a by (simp add: io_bind_def)
  next
    case Hung
    then show ?thesis using m a by (simp add: io_bind_def)
  qed
qed

lemma tame_catch:
  assumes "tame F D m" "\<And>e. (D \<Longrightarrow> exnMessage e \<noteq> []) \<Longrightarrow> tame F D (h e)"
  shows "tame F D (io_catch m h)"
  unfolding tame_def
proof (intro allI)
  fix s
  obtain r s' where m: "m s = (r, s')" by (metis surj_pair)
  note a = tameD[OF assms(1) m]
  show "(F \<longrightarrow> fst (io_catch m h s) \<noteq> Hung)
      \<and> (D \<longrightarrow> (\<forall>e. fst (io_catch m h s) = Thrown e \<longrightarrow> exnMessage e \<noteq> []))"
  proof (cases r)
    case (Returned x)
    then show ?thesis using m by (simp add: io_catch_def)
  next
    case (Thrown e)
    then have "io_catch m h s = h e s'" using m by (simp add: io_catch_def)
    moreover have "tame F D (h e)" using a Thrown by (intro assms(2)) simp
    ultimately show ?thesis by (simp add: tame_def)
  next
    case Hung
    then show ?thesis using m a by (simp add: io_catch_def)
  qed
qed

lemma tame_if: "tame F D a \<Longrightarrow> tame F D b \<Longrightarrow> tame F D (if c then a else b)"
  by simp
lemma tame_let: "tame F D (f e) \<Longrightarrow> tame F D (Let e f)"
  by simp
lemma tame_option: "tame F D a \<Longrightarrow> (\<And>x. tame F D (f x)) \<Longrightarrow> tame F D (case v of None \<Rightarrow> a | Some x \<Rightarrow> f x)"
  by (simp split: option.splits)
lemma tame_stage:
  fixes m :: "('w pstate, 'b) io"
  assumes "tame F D m"
  shows "tame F D (io_stage m)"
  unfolding tame_def
proof (intro allI)
  fix st :: "'w pstate \<times> stage_event list"
  obtain s lg where st: "st = (s, lg)" by (metis surj_pair)
  obtain r s' where m: "m s = (r, s')" by (metis surj_pair)
  have "io_stage m st = (r, (s', lg))" using st m by (simp add: io_stage_def)
  then show "(F \<longrightarrow> fst (io_stage m st) \<noteq> Hung)
      \<and> (D \<longrightarrow> (\<forall>e. fst (io_stage m st) = Thrown e \<longrightarrow> exnMessage e \<noteq> []))"
    using tameD[OF assms m] by simp
qed
lemma tame_log: "tame F D (io_log ev)"
  by (simp add: tame_def io_log_def split: prod.splits)
lemma tame_pure: "tame F D (\<lambda>s. (Returned (g s), h s))"
  by (simp add: tame_def)

lemma tame_exists: "tame F D (p_exists os p)"
  by (simp add: tame_def p_exists_def)
lemma tame_readdir: "tame F D (p_readdir os p)"
  by (simp add: tame_def p_readdir_def exnMessage_def split: option.splits)
lemma tame_inst: "tame F D (p_inst k)"
  by (simp add: tame_def p_inst_def)
lemma tame_set_inst: "tame F D (p_set_inst k i)"
  by (simp add: tame_def p_set_inst_def)
lemma tame_emit: "tame F D (emitProgress a b c)"
  by (simp add: tame_def emitProgress_def)
lemma tame_dateNow: "tame F D (dateNow os)"
  by (simp add: tame_def dateNow_def)
lemma tame_isOnline: "tame F D (isOnline os)"
  by (simp add: tame_def isOnline_def split: prod.splits)
lemma tame_applyEnvironment: "tame F D (applyEnvironment os env)"
  by (simp add: tame_def applyEnvironment_def Let_def)

lemma finishes_spawn:
  "finishes os \<Longrightarrow> spawn os line cwd env w = (Inr ch, w') \<Longrightarrow> ending ch \<noteq> NoEvent"
  unfolding finishes_def by (elim conjE) (erule allE[of _ line], fast)

lemma describes_spawn:
  "describes os \<Longrightarrow> spawn os line cwd env w = (Inl e, w') \<Longrightarrow> exnMessage e \<noteq> []"
  unfolding describes_def by (elim conjE) (erule allE[of _ line], fast)

lemma describes_error:
  "describes os \<Longrightarrow> spawn os line cwd env w = (Inr ch, w') \<Longrightarrow> ending ch = SpawnError msg
     \<Longrightarrow> msg \<noteq> []"
  unfolding describes_def by (elim conjE) (erule allE[of _ line], erule allE[of _ line], fast)

lemma tame_perform:
  fixes os :: "'w os"
  shows "tame (finishes os) (describes os) (p_perform os eff)"
  unfolding tame_def
proof (intro allI)
  fix s :: "'w pstate"
  obtain r w where p: "perform os eff (world s) = (r, w)" by (metis surj_pair)
  have "finishes os \<longrightarrow> r \<noteq> Hung"
    unfolding finishes_def using p by (metis fst_conv)
  moreover have "describes os \<longrightarrow> (\<forall>e. r = Thrown e \<longrightarrow> exnMessage e \<noteq> [])"
    unfolding describes_def using p by (metis fst_conv)
  ultimately show "(finishes os \<longrightarrow> fst (p_perform os eff s) \<noteq> Hung)
      \<and> (describes os \<longrightarrow> (\<forall>e. fst (p_perform os eff s) = Thrown e \<longrightarrow> exnMessage e \<noteq> []))"
    using p by (simp add: p_perform_def)
qed

lemma tame_prepare:
  fixes os :: "'w os"
  shows "tame (finishes os) (describes os) (pipeline_prepare os k p)"
  unfolding tame_def
proof (intro allI)
  fix s :: "'w pstate"
  obtain r i w where p: "prepare_eff os k p (insts s k) (world s) = (r, i, w)"
    by (metis surj_pair)
  have "finishes os \<longrightarrow> r \<noteq> Hung"
    unfolding finishes_def using p by (metis fst_conv)
  moreover have "describes os \<longrightarrow> (\<forall>e. r = Thrown e \<longrightarrow> exnMessage e \<noteq> [])"
    unfolding describes_def using p by (metis fst_conv)
  ultimately show "(finishes os \<longrightarrow> fst (pipeline_prepare os k p s) \<noteq> Hung)
      \<and> (describes os \<longrightarrow> (\<forall>e. fst (pipeline_prepare os k p s) = Thrown e \<longrightarrow> exnMessage e \<noteq> []))"
    using p by (simp add: pipeline_prepare_def)
qed

lemma tame_configure:
  fixes os :: "'w os"
  shows "tame (finishes os) (describes os) (pipeline_configure os k opts)"
  unfolding tame_def
proof (intro allI)
  fix s :: "'w pstate"
  obtain r i w where p: "configure_eff os k opts (insts s k) (world s) = (r, i, w)"
    by (metis surj_pair)
  have "finishes os \<longrightarrow> r \<noteq> Hung"
    unfolding finishes_def using p by (metis fst_conv)
  moreover have "describes os \<longrightarrow> (\<forall>e. r = Thrown e \<longrightarrow> exnMessage e \<noteq> [])"
    unfolding describes_def using p by (metis fst_conv)
  ultimately show "(finishes os \<longrightarrow> fst (pipeline_configure os k opts s) \<noteq> Hung)
      \<and> (describes os \<longrightarrow> (\<forall>e. fst (pipeline_configure os k opts s) = Thrown e \<longrightarrow> exnMessage e \<noteq> []))"
    using p by (simp add: pipeline_configure_def)
qed

lemma settle_tame:
  "(F \<longrightarrow> ending ch \<noteq> NoEvent) \<Longrightarrow> (F \<longrightarrow> settle ch \<noteq> Hung) \<and> (\<forall>e. settle ch \<noteq> Thrown e)"
  by (cases "ending ch") (simp_all add: settle_def)

lemma tame_runCommand:
  fixes os :: "'w os"
  shows "tame (finishes os) (describes os) (\<lambda>s. runCommand os command args cwd (env s) s)"
  unfolding tame_def
proof (intro allI)
  fix s :: "'w pstate"
  let ?line = "shellLine command (map Some args)"
  obtain r w where sp: "spawn os ?line (Some cwd) (env s) (world s) = (r, w)" by (metis surj_pair)
  show "(finishes os \<longrightarrow> fst (runCommand os command args cwd (env s) s) \<noteq> Hung)
      \<and> (describes os \<longrightarrow> (\<forall>e. fst (runCommand os command args cwd (env s) s) = Thrown e
             \<longrightarrow> exnMessage e \<noteq> []))"
  proof (cases r)
    case (Inl e)
    then show ?thesis using sp describes_spawn[of os ?line "Some cwd" "env s" "world s" e w]
      by (simp add: runCommand_def)
  next
    case (Inr ch)
    have "finishes os \<longrightarrow> ending ch \<noteq> NoEvent"
      using sp Inr finishes_spawn[of os ?line "Some cwd" "env s" "world s" ch w] by simp
    from settle_tame[OF this] show ?thesis using sp Inr by (simp add: runCommand_def)
  qed
qed

lemma tame_runCommand0: "tame (finishes os) (describes os) (runCommand os command args cwd env)"
  using tame_runCommand[of os command args cwd "\<lambda>s. env"] by simp

lemmas tame_rules = tame_return tame_throw tame_bind tame_catch tame_if tame_let tame_option
  tame_stage tame_log tame_exists tame_readdir tame_inst tame_set_inst tame_emit tame_dateNow
  tame_isOnline tame_applyEnvironment tame_perform tame_prepare tame_configure tame_runCommand0
  tame_runCommand

lemma tame_at: "(\<And>s. tame F D (g s)) \<Longrightarrow> tame F D (\<lambda>s. g s s)"
  by (simp add: tame_def)

lemma tame_runGradle:
  fixes os :: "'w os"
  shows "tame (finishes os) (describes os) (runGradle os task buildDir env)"
proof -
  define body :: "string \<Rightarrow> ('w pstate, gradle_result) io" where
    "body = (\<lambda>gradleExec. io_bind (isOnline os) (\<lambda>online.
              (let args = [task, ''--no-daemon'', ''--stacktrace'']
                          @ (if \<not> online then [''--offline''] else [])
               in io_catch
                    (io_bind (runCommand os gradleExec args buildDir (gradleEnv env))
                       (\<lambda>result. io_return (gradleResult result)))
                    (\<lambda>error.
                       if online
                       then (let args2 = (if ''--offline'' \<notin> set args
                                          then args @ [''--offline''] else args)
                             in io_bind (runCommand os gradleExec args2 buildDir (gradleEnv env))
                                  (\<lambda>result. io_return (gradleResult result)))
                       else io_throw error))))"
  define exe :: "'w pstate \<Rightarrow> string" where
    "exe = (\<lambda>s. join [GRADLE_HOME env, ''bin'',
                if process_platform os (world s) = ''win32'' then ''gradle.bat'' else ''gradle''])"
  have t: "tame (finishes os) (describes os) (body g)" for g
    unfolding body_def by (intro tame_rules) simp_all
  have e: "runGradle os task buildDir env = (\<lambda>s. body (exe s) s)"
    by (rule ext) (simp add: runGradle_def body_def exe_def Let_def)
  show ?thesis
    unfolding e by (rule tame_at[of _ _ "\<lambda>s. body (exe s)"]) (rule t)
qed

lemma tame_copyGradleWrapper: "tame (finishes os) (describes os) (copyGradleWrapper os d env)"
  unfolding copyGradleWrapper_def by (intro tame_rules)

lemma tame_generateLocalProperties:
  "tame (finishes os) (describes os) (generateLocalProperties os a b c)"
  unfolding generateLocalProperties_def by (intro tame_rules)

lemmas tame_rules2 = tame_rules tame_runGradle tame_copyGradleWrapper tame_generateLocalProperties

lemma tame_gradleBuild: "tame (finishes os) (describes os) (gradleBuild os k m1 m2 env)"
  unfolding gradleBuild_def by (intro tame_rules2)

lemma tame_rnBuild: "tame (finishes os) (describes os) (rnBuild os env)"
  unfolding rnBuild_def by (intro tame_rules2)

lemma tame_findGeneratedApk: "tame (finishes os) (describes os) (findGeneratedApk os dirs)"
proof (induction dirs)
  case Nil
  show ?case by (simp add: tame_return)
next
  case (Cons dir dirs)
  show ?case
    unfolding findGeneratedApk.simps
    by (intro tame_rules Cons)
qed

lemma tame_mauiBuild: "tame (finishes os) (describes os) (mauiBuild os env)"
  unfolding mauiBuild_def by (intro tame_rules2 tame_findGeneratedApk)

lemma tame_unityBuild: "tame (finishes os) (describes os) (unityBuild os env)"
  unfolding unityBuild_def by (intro tame_rules2)

lemma tame_pipeline_build: "tame (finishes os) (describes os) (pipeline_build os k env)"
  by (cases k) (simp_all add: pipeline_build_def webBuild_def ndkBuild_def tame_gradleBuild
      tame_rnBuild tame_mauiBuild tame_unityBuild)

lemma tame_getOfflineEnvironment: "tame F D (getOfflineEnvironment os)"
proof -
  have "tame F D (getAppRoot os)"
    by (simp add: tame_def getAppRoot_def)
  then show ?thesis
    unfolding getOfflineEnvironment_def getBundledPath_def
    by (intro tame_rules) (simp_all add: typeError_def exnMessage_def)
qed

lemma tame_getDebugKeystore:
  fixes os :: "'w os"
  shows "tame (finishes os) (describes os) (getDebugKeystore os env)"
proof -
  define body :: "string \<Rightarrow> ('w pstate, KeystoreInfo) io" where
    "body = (\<lambda>home.
       (let debugDir = join [home, ''.android''];
            keystorePath = join [debugDir, ''debug.keystore'']
        in io_bind (p_perform os (MkdirSync debugDir)) (\<lambda>_.
           io_bind (p_exists os keystorePath) (\<lambda>ex.
           io_bind (if \<not> ex
                    then io_catch (p_perform os (ExecSync (keytoolCommand keystorePath env)))
                           (\<lambda>error. io_throw error)
                    else io_return ()) (\<lambda>_.
             io_return \<lparr>ks_path = Some keystorePath, ks_password = Some ''android'',
                        ks_alias = Some ''androiddebugkey'',
                        ks_keyPassword = Some ''android''\<rparr>)))))"
  define home :: "'w pstate \<Rightarrow> string" where
    "home = (\<lambda>s. orElse (process_env os ''USERPROFILE'' (world s))
                     (orElse (process_env os ''HOME'' (world s)) ''.''))"
  have t: "tame (finishes os) (describes os) (body h)" for h
    unfolding body_def by (intro tame_rules) simp_all
  have e: "getDebugKeystore os env = (\<lambda>s. body (home s) s)"
    by (rule ext) (simp add: getDebugKeystore_def body_def home_def Let_def)
  show ?thesis
    unfolding e by (rule tame_at[of _ _ "\<lambda>s. body (home s)"]) (rule t)
qed

lemma tame_apksigner:
  fixes os :: "'w os"
  shows "tame (finishes os) (describes os)
     (\<lambda>s :: 'w pstate. case spawn os line None [] (world s) of
             (r, w) \<Rightarrow>
               (case r of Inl e \<Rightarrow> Thrown e | Inr ch \<Rightarrow> apksignerOutcome ch out,
                s\<lparr>world := w, spawned := spawned s @ [line]\<rparr>))"
  unfolding tame_def
proof (intro allI)
  fix s :: "'w pstate"
  let ?m = "\<lambda>s :: 'w pstate. case spawn os line None [] (world s) of
             (r, w) \<Rightarrow>
               (case r of Inl e \<Rightarrow> Thrown e | Inr ch \<Rightarrow> apksignerOutcome ch out,
                s\<lparr>world := w, spawned := spawned s @ [line]\<rparr>)"
  obtain r w where sp: "spawn os line None [] (world s) = (r, w)" by (metis surj_pair)
  show "(finishes os \<longrightarrow> fst (?m s) \<noteq> Hung)
      \<and> (describes os \<longrightarrow> (\<forall>e. fst (?m s) = Thrown e \<longrightarrow> exnMessage e \<noteq> []))"
  proof (cases r)
    case (Inl e)
    then show ?thesis using sp describes_spawn[of os line None "[]" "world s" e w] by simp
  next
    case (Inr ch)
    have f: "finishes os \<longrightarrow> ending ch \<noteq> NoEvent"
      using sp Inr finishes_spawn[of os line None "[]" "world s" ch w] by simp
    have d: "describes os \<longrightarrow> (\<forall>msg. ending ch = SpawnError msg \<longrightarrow> msg \<noteq> [])"
      using sp Inr describes_error[of os line None "[]" "world s" ch w] by blast
    have "(finishes os \<longrightarrow> apksignerOutcome ch out \<noteq> Hung)
        \<and> (describes os \<longrightarrow> (\<forall>e. apksignerOutcome ch out = Thrown e \<longrightarrow> exnMessage e \<noteq> []))"
      using f d by (cases "ending ch") (auto simp: apksignerOutcome_def exnMessage_def)
    then show ?thesis using sp Inr by simp
  qed
qed

lemma tame_signApk: "tame (finishes os) (describes os) (signApk os apk ks out env)"
  unfolding signApk_def by (intro tame_rules tame_apksigner)

lemma tame_sign: "tame (finishes os) (describes os) (sign os apk opts)"
  unfolding sign_def
  by (intro tame_rules tame_getOfflineEnvironment tame_getDebugKeystore tame_signApk)
     (simp_all add: typeError_def exnMessage_def)

lemma tame_orchDetectProject: "tame F D (orchDetectProject os p)"
  unfolding orchDetectProject_def by (intro tame_rules tame_pure)

lemma tame_failure: "tame F D (failure os t err)"
  unfolding failure_def by (intro tame_rules)

lemma buildTry_tame: "tame (finishes os) (describes os) (buildTry os env p opts t)"
  unfolding buildTry_def
  by (intro tame_rules tame_pure tame_failure tame_orchDetectProject tame_pipeline_build tame_sign)

subsection \<open>The outcome of \<^verbatim>\<open>build\<close>\<close>

lemma failure_run:
  "failure os t0 err (s, lg) =
     (Returned \<lparr>success = False, apkPath = None, aabPath = None, errors = [err], warnings = [],
                buildTime = date_now os (world s) - t0\<rparr>, (s, lg))"
  by (simp add: failure_def io_bind_def io_stage_def dateNow_def io_return_def)

lemma catch_total:
  assumes "safeAt lg m" "tame F D m"
  shows "\<exists>out s' lg'. io_catch m (\<lambda>e. failure os t (exnMessage e)) (s, lg) = (out, (s', lg'))
           \<and> outcome_ok F D out lg'"
proof -
  obtain r s1 lg1 where m: "m (s, lg) = (r, (s1, lg1))" by (metis surj_pair)
  have so: "safeOut (r, (s1, lg1))" using assms(1) m by (metis safeAt_def)
  note a = tameD[OF assms(2) m]
  show ?thesis
  proof (cases r)
    case (Returned x)
    then have "post_ok x lg1" using so by (simp add: safeOut_def)
    then have "outcome_ok F D (Returned x) lg1"
      by (auto simp: outcome_ok_def post_ok_def descriptive_def split: list.splits)
    then show ?thesis using m Returned by (simp add: io_catch_def)
  next
    case (Thrown e)
    then have "noFailedBuild lg1" using so by (simp add: safeOut_def)
    moreover have "D \<longrightarrow> exnMessage e \<noteq> []" using a Thrown by simp
    ultimately have "outcome_ok F D
        (Returned \<lparr>success = False, apkPath = None, aabPath = None, errors = [exnMessage e],
                    warnings = [], buildTime = date_now os (world s1) - t\<rparr>) lg1"
      by (auto simp: outcome_ok_def shortCircuit_def noFailedBuild_def descriptive_def)
    then show ?thesis using m Thrown by (simp add: io_catch_def failure_run)
  next
    case Hung
    then have "noFailedBuild lg1" using so by (simp add: safeOut_def)
    then have "outcome_ok F D Hung lg1" using a Hung by (simp add: outcome_ok_def)
    then show ?thesis using m Hung by (simp add: io_catch_def)
  qed
qed

lemma bind_dateNow: "io_bind (io_stage (dateNow os)) f (s, lg) = f (date_now os (world s)) (s, lg)"
  by (simp add: io_bind_def io_stage_def dateNow_def)

lemma build_run:
  "build os env p opts (s, lg) =
     io_catch (buildTry os env p opts (date_now os (world s)))
       (\<lambda>e. failure os (date_now os (world s)) (exnMessage e)) (s, lg)"
  by (simp add: build_def bind_dateNow)

lemma build_outcome:
  "\<exists>out s' lg. build os env p opts (s, []) = (out, (s', lg))
       \<and> outcome_ok (finishes os) (describes os) out lg"
  unfolding build_run by (rule catch_total) (rule buildTry_safe, rule buildTry_tame)

subsection \<open>The environment check\<close>

lemma verify_missing:
  "missing (verifyEnvironment rt env) = map fst (filter (\<lambda>c. \<not> existsSync rt (snd c)) (checks env))"
  "valid (verifyEnvironment rt env) \<longleftrightarrow> missing (verifyEnvironment rt env) = []"
  by (simp_all add: verifyEnvironment_def Let_def)

lemma bind_stage_emit:
  "io_bind (io_stage (emitProgress a b c)) f (s, lg) =
     f () (s\<lparr>progress := progress s @ [\<lparr>stage = a, percent = b, message = c\<rparr>]\<rparr>, lg)"
  by (simp add: io_bind_def io_stage_def emitProgress_def)

lemma bind_stage_pure:
  "io_bind (io_stage (\<lambda>s. (Returned (g s), s))) f (s, lg) = f (g s) (s, lg)"
  by (simp add: io_bind_def io_stage_def)

lemma catch_Returned: "m st = (Returned x, st') \<Longrightarrow> io_catch m h st = (Returned x, st')"
  by (simp add: io_catch_def)

lemma build_env_invalid:
  assumes "\<not> valid (verifyEnvironment (view os (world s)) env)"
  shows "build os env p opts (s, lg) =
     (Returned \<lparr>success = False, apkPath = None, aabPath = None,
           errors = [''SDKs faltando: '' @ joinWith '', '' (missing (verifyEnvironment (view os (world s)) env))],
           warnings = [], buildTime = 0\<rparr>,
      (s\<lparr>progress := progress s @ [\<lparr>stage = ''Verifica'' @ c_cedil @ a_tilde @ ''o'', percent = 5,
                                     message = ''Verificando SDKs embutidos...''\<rparr>]\<rparr>, lg))"
  unfolding build_run
  apply (rule catch_Returned)
  unfolding buildTry_def
  apply (subst bind_stage_emit)
  apply (subst bind_stage_pure)
  using assms apply (simp add: failure_run)
  done

text \<open>
  When one of the six roots of the table of \<^verbatim>\<open>verifyEnvironment\<close> does not exist,
  \<^verbatim>\<open>build\<close> returns a failure whose single error names exactly the missing roles; no
  stage is invoked, no process is spawned and nothing changes.
\<close>

lemma checked_root_missing_blocks_build:
  assumes "\<exists>c \<in> set (checks env). \<not> existsSync (view os (world s)) (snd c)"
  shows "\<exists>res s'. build os env p opts (s, []) = (Returned res, (s', []))
     \<and> \<not> success res \<and> apkPath res = None
     \<and> errors res = [''SDKs faltando: '' @ joinWith '', '' (missing (verifyEnvironment (view os (world s)) env))]
     \<and> missing (verifyEnvironment (view os (world s)) env) \<noteq> []
     \<and> set (missing (verifyEnvironment (view os (world s)) env)) =
         fst ` {c \<in> set (checks env). \<not> existsSync (view os (world s)) (snd c)}
     \<and> world s' = world s \<and> insts s' = insts s \<and> spawned s' = spawned s"
proof -
  have nv: "\<not> valid (verifyEnvironment (view os (world s)) env)"
    using assms unfolding verify_missing by (auto simp: filter_empty_conv)
  have ne: "missing (verifyEnvironment (view os (world s)) env) \<noteq> []"
    using nv verify_missing(2) by blast
  have st: "set (missing (verifyEnvironment (view os (world s)) env)) =
         fst ` {c \<in> set (checks env). \<not> existsSync (view os (world s)) (snd c)}"
    unfolding verify_missing(1) by auto
  show ?thesis
    unfolding build_env_invalid[OF nv] using ne st by simp
qed

lemma machine_fields:
  "view (machine online c err) = (\<lambda>w. w)"
  "spawn (machine online c err) =
     (\<lambda>line cwd env w. (Inr \<lparr>chunks = [Stderr err], ending = Close c\<rparr>, w))"
  "dns_lookup (machine online c err) = (\<lambda>host w. (online, w))"
  "perform (machine online c err) = (\<lambda>eff w. (Returned (), w))"
  "date_now (machine online c err) = (\<lambda>w. 0)"
  "set_process_env (machine online c err) = (\<lambda>name v w. w)"
  "process_platform (machine online c err) = (\<lambda>w. ''linux'')"
  "prepare_eff (machine online c err) = (\<lambda>k p i w. (Returned (), i, w))"
  "configure_eff (machine online c err) = (\<lambda>k opts i w. (Returned (), i, w))"
  by (simp_all add: machine_def)

lemma build_without_jdk:
  "\<exists>s'. build (machine True (Some 0) []) env0 ''/app'' options0 (state0 rtNoJdk, []) =
          (Returned \<lparr>success = False, apkPath = None, aabPath = None,
                      errors = [''SDKs faltando: JDK, dotnet SDK''], warnings = [],
                      buildTime = 0\<rparr>, (s', []))"
proof -
  have m: "missing (verifyEnvironment rtNoJdk env0) = [''JDK'', ''dotnet SDK'']"
    by (simp add: verifyEnvironment_def checks_def rtNoJdk_def env0_def)
  have v: "view (machine True (Some 0) []) (world (state0 rtNoJdk)) = rtNoJdk"
    by (simp add: machine_fields state0_def)
  have "\<not> valid (verifyEnvironment (view (machine True (Some 0) []) (world (state0 rtNoJdk))) env0)"
    unfolding v verify_missing(2) m by simp
  from build_env_invalid[OF this, of "''/app''" options0 "[]"]
  show ?thesis unfolding v m by simp
qed

text \<open>
  Claim C9 at a failing input: the Gradle installation (\<^verbatim>\<open>GRADLE_HOME\<close>), one of the
  nine roots of the mapping, is absent and all else is in place. The verdict is
  \<^verbatim>\<open>valid\<close> with nothing missing: the table of \<^verbatim>\<open>verifyEnvironment\<close> has six
  entries, although the function is documented to check that all the SDKs are installed.
\<close>

theorem verifyEnvironment_misses_gradle_home:
  "GRADLE_HOME env0 \<in> set (roots env0)
   \<and> \<not> existsSync rtNoGradle (GRADLE_HOME env0)
   \<and> valid (verifyEnvironment rtNoGradle env0)
   \<and> missing (verifyEnvironment rtNoGradle env0) = []"
  by (simp add: verifyEnvironment_def checks_def roots_def rtNoGradle_def env0_def)

subsection \<open>Running a command\<close>

lemma runCommand_run:
  "runCommand os command args cwd env s =
     (case fst (spawn os (shellLine command (map Some args)) (Some cwd) env (world s)) of
        Inl e \<Rightarrow> Thrown e | Inr ch \<Rightarrow> settle ch,
      s\<lparr>world := snd (spawn os (shellLine command (map Some args)) (Some cwd) env (world s)),
        spawned := spawned s @ [shellLine command (map Some args)]\<rparr>)"
  by (simp add: runCommand_def split: prod.splits)




subsection \<open>Running Gradle\<close>

lemma machine_runGradle:
  assumes "world s = rt"
  shows "runGradle (machine True (Some n) err) ''assembleDebug'' dir env0 s =
     (Returned \<lparr>g_success = (n = 0), g_output = err\<rparr>,
      s\<lparr>world := rt,
        spawned := spawned s @ [''/b/gradle/8.5/bin/gradle assembleDebug --no-daemon --stacktrace'']\<rparr>)"
  using assms
  by (simp add: runGradle_def isOnline_def io_bind_def io_catch_def io_return_def runCommand_run
      machine_fields env0_def settle_def gradleResult_def stdoutOf_def stderrOf_def
      shellLine_def shellArg_def Let_def)

text \<open>
  Claim C6 at a failing input: the DNS lookup succeeds and Gradle exits with code 1.
  \<^verbatim>\<open>runGradle\<close> returns the failure after one run of Gradle, without \<^verbatim>\<open>--offline\<close>:
  there is no second, offline run. The retry sits in a \<^verbatim>\<open>catch\<close> that is entered only
  when \<^verbatim>\<open>runCommand\<close> rejects, and a Gradle run that fails does not reject it.
\<close>

theorem runGradle_online_failure_not_retried:
  "runGradle (machine True (Some 1) ''Could not resolve com.android.tools.build:gradle'')
      ''assembleDebug'' ''/tmp/apk-builder/web/1'' env0 (state0 rtWeb) =
     (Returned \<lparr>g_success = False,
                 g_output = ''Could not resolve com.android.tools.build:gradle''\<rparr>,
      (state0 rtWeb)\<lparr>world := rtWeb,
         spawned := [''/b/gradle/8.5/bin/gradle assembleDebug --no-daemon --stacktrace'']\<rparr>)"
  by (simp add: machine_runGradle[of _ rtWeb] state0_def)

text \<open>
  The \<^verbatim>\<open>catch\<close> is entered when \<^verbatim>\<open>spawn\<close> throws: then, online, Gradle is tried a
  second time with \<^verbatim>\<open>--offline\<close>, and what that attempt throws goes to the caller.
\<close>

lemma runGradle_retries_after_spawn_throw:
  "runGradle machineSpawnThrows ''assembleDebug'' ''/tmp/apk-builder/web/1'' env0 (state0 rtWeb) =
     (Thrown (Exn ''spawn E2BIG''),
      (state0 rtWeb)\<lparr>world := rtWeb,
         spawned := [''/b/gradle/8.5/bin/gradle assembleDebug --no-daemon --stacktrace'',
                     ''/b/gradle/8.5/bin/gradle assembleDebug --no-daemon --stacktrace --offline'']\<rparr>)"
  by (simp add: runGradle_def isOnline_def io_bind_def io_catch_def io_return_def runCommand_run
      machineSpawnThrows_def machine_def env0_def state0_def shellLine_def shellArg_def Let_def)

subsection \<open>Signing\<close>

lemma machine_env: "getOfflineEnvironment (machine online c err) s = (Returned envM, s)"
  by (simp add: getOfflineEnvironment_def getBundledPath_def getAppRoot_def io_bind_def
      io_return_def machine_def envM_def)

lemma sign_sample:
  "sign (machine True (Some 0) []) (Some ''/out/app-release.apk'') opts (state0 rtWeb) =
     (Returned ''/out/app-release-signed.apk'',
      (state0 rtWeb)\<lparr>world := rtWeb,
        spawned := [shellLine ''/opt/app/resources/bundled/android-sdk/build-tools/34.0.0/apksigner''
            (signArgs (releaseKeystore opts) ''/out/app-release-signed.apk'' ''/out/app-release.apk'')]\<rparr>)"
  if "signMode opts = Release" for opts
  using that
  by (simp add: sign_def io_bind_def io_return_def machine_env signApk_def Let_def io_catch_def
      p_perform_def p_exists_def startsWith_def)
     (simp add: machine_def state0_def rtWeb_def envM_def apksignerPath_def apksignerOutcome_def)

text \<open>
  Claim C8 at a failing input: a release build whose caller left out the keystore
  password. \<^verbatim>\<open>sign\<close> reports no configuration error: it hands the shell an
  \<^verbatim>\<open>apksigner\<close> line with the password \<^verbatim>\<open>pass:undefined\<close> and, when \<^verbatim>\<open>apksigner\<close> exits
  with code 0, returns the signed path.
\<close>

theorem sign_release_without_password_reports_nothing:
  "signMode optionsNoPassword = Release
   \<and> keystorePassword optionsNoPassword = None
   \<and> sign (machine True (Some 0) []) (Some ''/out/app-release.apk'') optionsNoPassword (state0 rtWeb) =
     (Returned ''/out/app-release-signed.apk'',
      (state0 rtWeb)\<lparr>world := rtWeb,
        spawned := [''/opt/app/resources/bundled/android-sdk/build-tools/34.0.0/apksigner sign''
            @ '' --ks /keys/release.jks --ks-pass pass:undefined''
            @ '' --ks-key-alias upload --key-pass pass:s3cret''
            @ '' --v2-signing-enabled true --v3-signing-enabled true''
            @ '' --out /out/app-release-signed.apk /out/app-release.apk'']\<rparr>)"
proof -
  have r: "signMode optionsNoPassword = Release"
    by (simp add: optionsNoPassword_def)
  show ?thesis
    using r sign_sample[OF r]
    by (simp add: releaseKeystore_def signArgs_def shellLine_def shellArg_def template_def
        optionsNoPassword_def options0_def)
qed

text \<open>
  With the keystore path and the key alias left out, the line has nothing where they
  belong: after \<^verbatim>\<open>--ks\<close> and after \<^verbatim>\<open>--ks-key-alias\<close> come two spaces and the next
  option.
\<close>

lemma sign_release_without_path_and_alias:
  "sign (machine True (Some 0) []) (Some ''/out/app-release.apk'') optionsNoPath (state0 rtWeb) =
     (Returned ''/out/app-release-signed.apk'',
      (state0 rtWeb)\<lparr>world := rtWeb,
        spawned := [''/opt/app/resources/bundled/android-sdk/build-tools/34.0.0/apksigner sign''
            @ '' --ks  --ks-pass pass:st0re''
            @ '' --ks-key-alias  --key-pass pass:s3cret''
            @ '' --v2-signing-enabled true --v3-signing-enabled true''
            @ '' --out /out/app-release-signed.apk /out/app-release.apk'']\<rparr>)"
proof -
  have r: "signMode optionsNoPath = Release"
    by (simp add: optionsNoPath_def)
  show ?thesis
    using sign_sample[OF r]
    by (simp add: releaseKeystore_def signArgs_def shellLine_def shellArg_def template_def
        optionsNoPath_def options0_def)
qed

subsection \<open>Whole builds\<close>

lemma rtWeb_detect:
  "detectProject rtWeb ''/app'' =
     \<lparr>path = ''/app'', ptype = Web, confidence = 50, detectedFiles = [''/app/index.html''],
      suggestedName = ''app''\<rparr>"
proof -
  have "detectWebProject rtWeb ''/app'' =
          Some \<lparr>r_type = Web, r_confidence = 50, r_detectedFiles = [''/app/index.html'']\<rparr>
      \<and> detectNdkProject rtWeb ''/app'' = None \<and> detectMauiProject rtWeb ''/app'' = None
      \<and> detectReactNativeProject rtWeb ''/app'' = None \<and> detectUnityProject rtWeb ''/app'' = None"
    by (simp add: detectWebProject_def webPackageJson_def webDirs_def detectNdkProject_def
        detectMauiProject_def detectUnityProject_def detectReactNativeProject_def
        rtWeb_def finish_def endsWith_def Let_def)
  then show ?thesis
    by (simp add: detectProject_def detectProjectWith_def detectors_def extractProjectName_def
        isAlnum_def)
qed

lemma rtWebNoGradle_detect:
  "detectProject rtWebNoGradle ''/app'' =
     \<lparr>path = ''/app'', ptype = Web, confidence = 50, detectedFiles = [''/app/index.html''],
      suggestedName = ''app''\<rparr>"
proof -
  have "detectWebProject rtWebNoGradle ''/app'' =
          Some \<lparr>r_type = Web, r_confidence = 50, r_detectedFiles = [''/app/index.html'']\<rparr>
      \<and> detectNdkProject rtWebNoGradle ''/app'' = None
      \<and> detectMauiProject rtWebNoGradle ''/app'' = None
      \<and> detectReactNativeProject rtWebNoGradle ''/app'' = None
      \<and> detectUnityProject rtWebNoGradle ''/app'' = None"
    by (simp add: detectWebProject_def webPackageJson_def webDirs_def detectNdkProject_def
        detectMauiProject_def detectUnityProject_def detectReactNativeProject_def
        rtWebNoGradle_def finish_def endsWith_def Let_def)
  then show ?thesis
    by (simp add: detectProject_def detectProjectWith_def detectors_def extractProjectName_def
        isAlnum_def)
qed

lemma rtWeb_env: "valid (verifyEnvironment rtWeb env0)"
  by (simp add: verifyEnvironment_def checks_def rtWeb_def env0_def)

lemma rtWebNoGradle_env: "valid (verifyEnvironment rtWebNoGradle env0)"
  by (simp add: verifyEnvironment_def checks_def rtWebNoGradle_def env0_def)

lemma rtWeb_wrapper:
  "\<not> existsSync rtWeb ''/b/gradle-cache/../gradle/8.5/wrapper''"
  "\<not> existsSync rtWeb ''/b/gradle-cache/../gradle/8.5/gradlew.bat''"
  "\<not> existsSync rtWeb ''/b/gradle-cache/../gradle/8.5/gradlew''"
  by (simp_all add: rtWeb_def)

lemma rtWebNoGradle_wrapper:
  "\<not> existsSync rtWebNoGradle ''/b/gradle-cache/../gradle/8.5/wrapper''"
  "\<not> existsSync rtWebNoGradle ''/b/gradle-cache/../gradle/8.5/gradlew.bat''"
  "\<not> existsSync rtWebNoGradle ''/b/gradle-cache/../gradle/8.5/gradlew''"
  by (simp_all add: rtWebNoGradle_def)

lemma webBuild_fails:
  assumes "world s = rt" "insts s WebPipeline = obj0" "n \<noteq> 0"
    and "\<not> existsSync rt ''/b/gradle-cache/../gradle/8.5/wrapper''"
    and "\<not> existsSync rt ''/b/gradle-cache/../gradle/8.5/gradlew.bat''"
    and "\<not> existsSync rt ''/b/gradle-cache/../gradle/8.5/gradlew''"
  shows "webBuild (machine True (Some n) err) env0 s =
     (Returned (failed [''Gradle build falhou'', err] []),
      s\<lparr>world := rt,
        spawned := spawned s @ [''/b/gradle/8.5/bin/gradle assembleDebug --no-daemon --stacktrace'']\<rparr>)"
proof -
  have g: "generateLocalProperties (machine True (Some n) err) a b c s = (Returned (), s)" for a b c
    using assms(1) by (simp add: generateLocalProperties_def p_perform_def machine_fields Let_def)
  have w: "copyGradleWrapper (machine True (Some n) err) ''/tmp/apk-builder/web/1'' env0 s = (Returned (), s)"
    using assms(1,4,5,6)
    by (simp add: copyGradleWrapper_def io_bind_def io_return_def p_exists_def machine_fields
        env0_def Let_def)
  show ?thesis
    using assms(1,2,3) g w machine_runGradle[OF assms(1), of n err "''/tmp/apk-builder/web/1''"]
    by (simp add: webBuild_def gradleBuild_def io_bind_def io_return_def p_inst_def obj0_def
        isRelease_def Let_def)
qed

lemma build_gradle_fails:
  assumes "n \<noteq> 0"
    and "detectProject rt ''/app'' =
     \<lparr>path = ''/app'', ptype = Web, confidence = 50, detectedFiles = [''/app/index.html''],
      suggestedName = ''app''\<rparr>"
    and "valid (verifyEnvironment rt env0)"
    and "\<not> existsSync rt ''/b/gradle-cache/../gradle/8.5/wrapper''"
    and "\<not> existsSync rt ''/b/gradle-cache/../gradle/8.5/gradlew.bat''"
    and "\<not> existsSync rt ''/b/gradle-cache/../gradle/8.5/gradlew''"
  shows "\<exists>s'. build (machine True (Some n) err) env0 ''/app'' options0 (state0 rt, []) =
     (Returned (failed [''Gradle build falhou'', err] []),
      (s', [PrepareCalled, ConfigureCalled, BuildCalled,
            BuildReturned (failed [''Gradle build falhou'', err] [])]))
     \<and> spawned s' = [''/b/gradle/8.5/bin/gradle assembleDebug --no-daemon --stacktrace'']"
  unfolding build_def buildTry_def
  using assms(1)
  by (simp add: io_bind_def io_catch_def io_stage_def io_log_def io_return_def
      emitProgress_def dateNow_def applyEnvironment_def orchDetectProject_def
      pipeline_prepare_def pipeline_configure_def pipeline_build_def pipelines_def
      assms(2,3) webBuild_fails[OF _ _ _ assms(4,5,6)] state0_def
      Let_def machine_fields failed_def)

text \<open>
  Claim C4 at a failing input: a Web project on a machine where the Gradle installation
  (\<^verbatim>\<open>GRADLE_HOME\<close>), which \<^verbatim>\<open>runGradle\<close> requires, does not exist. The environment
  check lets the build through: \<^verbatim>\<open>prepare\<close>, \<^verbatim>\<open>configure\<close> and \<^verbatim>\<open>build\<close> are invoked,
  the shell is handed the missing Gradle binary, and the result names no toolchain role:
  its errors are those of the failed Gradle run.
\<close>

theorem build_proceeds_without_gradle_home:
  "\<not> existsSync rtWebNoGradle (GRADLE_HOME env0)
   \<and> fst (build (machine True (Some 127) ''/bin/sh: 1: /b/gradle/8.5/bin/gradle: not found'')
            env0 ''/app'' options0 (state0 rtWebNoGradle, [])) =
       Returned \<lparr>success = False, apkPath = None, aabPath = None,
                  errors = [''Gradle build falhou'',
                            ''/bin/sh: 1: /b/gradle/8.5/bin/gradle: not found''],
                  warnings = [], buildTime = 0\<rparr>
   \<and> snd (snd (build (machine True (Some 127) ''/bin/sh: 1: /b/gradle/8.5/bin/gradle: not found'')
                 env0 ''/app'' options0 (state0 rtWebNoGradle, []))) =
       [PrepareCalled, ConfigureCalled, BuildCalled,
        BuildReturned \<lparr>success = False, apkPath = None, aabPath = None,
                        errors = [''Gradle build falhou'',
                                  ''/bin/sh: 1: /b/gradle/8.5/bin/gradle: not found''],
                        warnings = [], buildTime = 0\<rparr>]
   \<and> spawned (fst (snd (build (machine True (Some 127) ''/bin/sh: 1: /b/gradle/8.5/bin/gradle: not found'')
                          env0 ''/app'' options0 (state0 rtWebNoGradle, [])))) =
       [''/b/gradle/8.5/bin/gradle assembleDebug --no-daemon --stacktrace'']"
proof -
  have "\<not> existsSync rtWebNoGradle (GRADLE_HOME env0)"
    by (simp add: rtWebNoGradle_def env0_def)
  moreover have "(127::int) \<noteq> 0" by simp
  ultimately show ?thesis
    using build_gradle_fails[OF _ rtWebNoGradle_detect rtWebNoGradle_env rtWebNoGradle_wrapper,
        of 127 "''/bin/sh: 1: /b/gradle/8.5/bin/gradle: not found''"]
    by (auto simp: failed_def)
qed

text \<open>
  Claim C5. If the \<^verbatim>\<open>build\<close> stage of the pipeline returned a result \<open>b\<close> with
  \<^verbatim>\<open>success: false\<close>, then \<^verbatim>\<open>sign\<close> was not invoked, output placement did not begin,
  and the orchestrator returned \<open>b\<close> itself, which has no \<^verbatim>\<open>apkPath\<close>.
\<close>

theorem failed_build_short_circuits:
  assumes "build os env p opts (s, []) = (r, (s', lg))"
    and "BuildReturned b \<in> set lg" and "\<not> success b"
  shows "r = Returned b \<and> apkPath b = None \<and> SignCalled \<notin> set lg \<and> OutputPlacement \<notin> set lg"
proof -
  obtain out s1 lg1 where "build os env p opts (s, []) = (out, (s1, lg1))"
    and "outcome_ok (finishes os) (describes os) out lg1"
    using build_outcome[of os env p opts s] by blast
  then have ok: "outcome_ok (finishes os) (describes os) r lg"
    using assms(1) by simp
  show ?thesis
  proof (cases r)
    case (Returned res)
    then have "shortCircuit res lg" using ok by (simp add: outcome_ok_def)
    then show ?thesis using Returned assms(2,3) by (auto simp: shortCircuit_def)
  next
    case (Thrown e)
    then show ?thesis using ok by (simp add: outcome_ok_def)
  next
    case Hung
    then have "noFailedBuild lg" using ok by (simp add: outcome_ok_def)
    then show ?thesis using assms(2,3) by (auto simp: noFailedBuild_def)
  qed
qed

theorem failed_build_short_circuits_witness:
  "\<exists>s'. build (machine True (Some 1) ''FAILURE: Build failed'') env0 ''/app'' options0
           (state0 rtWeb, []) =
         (Returned (failed [''Gradle build falhou'', ''FAILURE: Build failed''] []),
          (s', [PrepareCalled, ConfigureCalled, BuildCalled,
                BuildReturned (failed [''Gradle build falhou'', ''FAILURE: Build failed''] [])]))
      \<and> \<not> success (failed [''Gradle build falhou'', ''FAILURE: Build failed''] [])
      \<and> apkPath (failed [''Gradle build falhou'', ''FAILURE: Build failed''] []) = None"
proof -
  let ?b = "failed [''Gradle build falhou'', ''FAILURE: Build failed''] []"
  let ?lg = "[PrepareCalled, ConfigureCalled, BuildCalled, BuildReturned ?b]"
  have "(1::int) \<noteq> 0" by simp
  then obtain s' where e: "build (machine True (Some 1) ''FAILURE: Build failed'') env0 ''/app'' options0
           (state0 rtWeb, []) = (Returned ?b, (s', ?lg))"
    using build_gradle_fails[OF _ rtWeb_detect rtWeb_env rtWeb_wrapper,
        of 1 "''FAILURE: Build failed''"] by blast
  have m: "BuildReturned ?b \<in> set ?lg" by simp
  have n: "\<not> success ?b" by (simp add: failed_def)
  from failed_build_short_circuits[OF e m n] have "apkPath ?b = None" by simp
  then show ?thesis using e n by blast
qed







text \<open>
  The two conditions on the machine are needed. With a Gradle child that never ends, the
  call of \<^verbatim>\<open>build\<close> never comes back; and when \<^verbatim>\<open>spawn\<close> throws in the \<^verbatim>\<open>build\<close> stage,
  the result carries the message of what it threw.
\<close>

lemma machineHangs_fields:
  "view machineHangs = (\<lambda>w. w)"
  "spawn machineHangs = (\<lambda>line cwd env w. (Inr \<lparr>chunks = [], ending = NoEvent\<rparr>, w))"
  "dns_lookup machineHangs = (\<lambda>host w. (True, w))"
  "perform machineHangs = (\<lambda>eff w. (Returned (), w))"
  "date_now machineHangs = (\<lambda>w. 0)"
  "set_process_env machineHangs = (\<lambda>name v w. w)"
  "process_platform machineHangs = (\<lambda>w. ''linux'')"
  "prepare_eff machineHangs = (\<lambda>k p i w. (Returned (), i, w))"
  "configure_eff machineHangs = (\<lambda>k opts i w. (Returned (), i, w))"
  by (simp_all add: machineHangs_def machine_def)

lemma machineSpawnThrows_fields:
  "view machineSpawnThrows = (\<lambda>w. w)"
  "spawn machineSpawnThrows = (\<lambda>line cwd env w. (Inl (Exn ''spawn E2BIG''), w))"
  "dns_lookup machineSpawnThrows = (\<lambda>host w. (True, w))"
  "perform machineSpawnThrows = (\<lambda>eff w. (Returned (), w))"
  "date_now machineSpawnThrows = (\<lambda>w. 0)"
  "set_process_env machineSpawnThrows = (\<lambda>name v w. w)"
  "process_platform machineSpawnThrows = (\<lambda>w. ''linux'')"
  "prepare_eff machineSpawnThrows = (\<lambda>k p i w. (Returned (), i, w))"
  "configure_eff machineSpawnThrows = (\<lambda>k opts i w. (Returned (), i, w))"
  by (simp_all add: machineSpawnThrows_def machine_def)

lemma env0_fields:
  "JAVA_HOME env0 = ''/b/jdk''" "ANDROID_HOME env0 = ''/b/android-sdk''"
  "ANDROID_NDK_HOME env0 = ''/b/ndk/r26''" "GRADLE_USER_HOME env0 = ''/b/gradle-cache''"
  "GRADLE_HOME env0 = ''/b/gradle/8.5''"
  by (simp_all add: env0_def)

lemma build_hangs_with_gradle:
  "\<not> finishes machineHangs
   \<and> fst (build machineHangs env0 ''/app'' options0 (state0 rtWeb, [])) = Hung"
proof -
  have "\<not> finishes machineHangs"
    by (simp add: finishes_def machineHangs_fields)
  moreover have "fst (build machineHangs env0 ''/app'' options0 (state0 rtWeb, [])) = Hung"
    unfolding build_def buildTry_def
    by (simp add: io_bind_def io_catch_def io_stage_def io_log_def io_return_def
        emitProgress_def dateNow_def applyEnvironment_def orchDetectProject_def
        pipeline_prepare_def pipeline_configure_def pipeline_build_def pipelines_def
        rtWeb_detect rtWeb_env rtWeb_wrapper state0_def Let_def machineHangs_fields
        webBuild_def gradleBuild_def generateLocalProperties_def copyGradleWrapper_def
        p_perform_def p_exists_def p_inst_def obj0_def isRelease_def env0_fields
        runGradle_def isOnline_def runCommand_run settle_def)
  ultimately show ?thesis by simp
qed

lemma build_reports_spawn_throw:
  "fst (build machineSpawnThrows env0 ''/app'' options0 (state0 rtWeb, [])) =
     Returned \<lparr>success = False, apkPath = None, aabPath = None, errors = [''spawn E2BIG''],
                warnings = [], buildTime = 0\<rparr>"
  unfolding build_def buildTry_def
  by (simp add: io_bind_def io_catch_def io_stage_def io_log_def io_return_def
      emitProgress_def dateNow_def applyEnvironment_def orchDetectProject_def
      pipeline_prepare_def pipeline_configure_def pipeline_build_def pipelines_def
      rtWeb_detect rtWeb_env rtWeb_wrapper state0_def Let_def machineSpawnThrows_fields
      webBuild_def gradleBuild_def generateLocalProperties_def copyGradleWrapper_def
      p_perform_def p_exists_def p_inst_def obj0_def isRelease_def env0_fields
      runGradle_def isOnline_def runCommand_run failure_def exnMessage_def)


end
